theory Spec2Isabelle
  imports Complex_Main "HOL-Library.Sublist" "HOL-Library.Multiset"
begin

section \<open>JavaScript values used by the carrier integration\<close>

text \<open>
  A JavaScript \<open>number\<close> is modelled with its three non-finite values written out.
  Finite values are exact reals: rounding to a double is not modelled, which keeps the
  sign of every difference and the outcome of every comparison used below.
  Strings are lists of code units.
\<close>

datatype jsnum = NaN | NegInf | Num real | PosInf

fun js_neg :: "jsnum \<Rightarrow> jsnum" where
  "js_neg NaN = NaN"
| "js_neg NegInf = PosInf"
| "js_neg (Num a) = Num (- a)"
| "js_neg PosInf = NegInf"

fun js_add :: "jsnum \<Rightarrow> jsnum \<Rightarrow> jsnum" where
  "js_add NaN b = NaN"
| "js_add a NaN = NaN"
| "js_add (Num a) (Num b) = Num (a + b)"
| "js_add PosInf NegInf = NaN"
| "js_add NegInf PosInf = NaN"
| "js_add PosInf b = PosInf"
| "js_add a PosInf = PosInf"
| "js_add NegInf b = NegInf"
| "js_add a NegInf = NegInf"

definition js_sub :: "jsnum \<Rightarrow> jsnum \<Rightarrow> jsnum" where
  "js_sub a b = js_add a (js_neg b)"

fun js_mul :: "jsnum \<Rightarrow> jsnum \<Rightarrow> jsnum" where
  "js_mul NaN b = NaN"
| "js_mul a NaN = NaN"
| "js_mul (Num a) (Num b) = Num (a * b)"
| "js_mul (Num a) PosInf = (if a = 0 then NaN else if 0 < a then PosInf else NegInf)"
| "js_mul (Num a) NegInf = (if a = 0 then NaN else if 0 < a then NegInf else PosInf)"
| "js_mul PosInf (Num b) = (if b = 0 then NaN else if 0 < b then PosInf else NegInf)"
| "js_mul NegInf (Num b) = (if b = 0 then NaN else if 0 < b then NegInf else PosInf)"
| "js_mul PosInf PosInf = PosInf"
| "js_mul NegInf NegInf = PosInf"
| "js_mul PosInf NegInf = NegInf"
| "js_mul NegInf PosInf = NegInf"

text \<open>The relational operators: every comparison with \<open>NaN\<close> is false.\<close>

fun js_lt :: "jsnum \<Rightarrow> jsnum \<Rightarrow> bool" where
  "js_lt NaN b = False"
| "js_lt a NaN = False"
| "js_lt (Num a) (Num b) = (a < b)"
| "js_lt PosInf b = False"
| "js_lt a NegInf = False"
| "js_lt NegInf b = True"
| "js_lt a PosInf = True"

definition js_le :: "jsnum \<Rightarrow> jsnum \<Rightarrow> bool" where
  "js_le a b = (a \<noteq> NaN \<and> b \<noteq> NaN \<and> \<not> js_lt b a)"

text \<open>Truthiness of an optional string: \<open>undefined\<close> and the empty string are falsy.\<close>

definition truthy :: "string option \<Rightarrow> bool" where
  "truthy v = (case v of None \<Rightarrow> False | Some s \<Rightarrow> s \<noteq> [])"

text \<open>\<open>a || d\<close> for an optional string \<open>a\<close> and a default \<open>d\<close>.\<close>

definition or_default :: "string option \<Rightarrow> string \<Rightarrow> string" where
  "or_default v d = (case v of None \<Rightarrow> d | Some s \<Rightarrow> if s = [] then d else s)"

subsection \<open>Decimal strings\<close>

definition is_js_whitespace :: "char \<Rightarrow> bool" where
  "is_js_whitespace c = (c \<in> set [CHR '' '', CHR 0x09, CHR 0x0A, CHR 0x0B, CHR 0x0C, CHR 0x0D])"

definition digit_of_char :: "char \<Rightarrow> nat option" where
  "digit_of_char = map_of
     [(CHR ''0'', 0), (CHR ''1'', 1), (CHR ''2'', 2), (CHR ''3'', 3), (CHR ''4'', 4),
      (CHR ''5'', 5), (CHR ''6'', 6), (CHR ''7'', 7), (CHR ''8'', 8), (CHR ''9'', 9)]"

definition is_digit :: "char \<Rightarrow> bool" where
  "is_digit c = (digit_of_char c \<noteq> None)"

definition digits_val :: "string \<Rightarrow> nat" where
  "digits_val ds = foldl (\<lambda>n c. 10 * n + (case digit_of_char c of None \<Rightarrow> 0 | Some d \<Rightarrow> d)) 0 ds"

text \<open>An optional sign in front of a numeral: whether it is negative, and the rest.\<close>

definition split_sign :: "string \<Rightarrow> bool \<times> string" where
  "split_sign t = (case t of
       [] \<Rightarrow> (False, t)
     | c # r \<Rightarrow> if c = CHR ''-'' then (True, r) else if c = CHR ''+'' then (False, r) else (False, t))"

text \<open>
  \<open>parseInt(s, 10)\<close>: leading white space is skipped, a sign is read, then the longest
  run of decimal digits; with no digit the result is \<open>NaN\<close>.
\<close>

definition parseInt10 :: "string \<Rightarrow> jsnum" where
  "parseInt10 s =
     (let (neg, u) = split_sign (dropWhile is_js_whitespace s);
          ds = takeWhile is_digit u
      in if ds = [] then NaN
         else Num ((if neg then - 1 else 1) * real (digits_val ds)))"

text \<open>
  The exponent of a decimal literal; an \<open>e\<close> that no digit follows is not part of the
  literal.
\<close>

definition exponent_part :: "string \<Rightarrow> int" where
  "exponent_part r = (case r of
       [] \<Rightarrow> 0
     | c # r' \<Rightarrow>
         if c = CHR ''e'' \<or> c = CHR ''E''
         then (let (neg, u) = split_sign r'; ds = takeWhile is_digit u
               in if ds = [] then 0
                  else (if neg then - int (digits_val ds) else int (digits_val ds)))
         else 0)"

text \<open>
  \<open>parseFloat(s)\<close>: the longest prefix of the trimmed string that is a decimal literal
  (\<open>Infinity\<close>, or digits with an optional fraction and exponent); \<open>NaN\<close> when there is
  none.
\<close>

definition parseFloat :: "string \<Rightarrow> jsnum" where
  "parseFloat s =
     (let (neg, u) = split_sign (dropWhile is_js_whitespace s)
      in if prefix ''Infinity'' u then (if neg then NegInf else PosInf)
         else
           (let ip = takeWhile is_digit u;
                r1 = dropWhile is_digit u;
                (fp, r2) = (case r1 of
                     [] \<Rightarrow> ([], r1)
                   | c # r \<Rightarrow> if c = CHR ''.''
                             then (takeWhile is_digit r, dropWhile is_digit r)
                             else ([], r1))
            in if ip = [] \<and> fp = [] then NaN
               else
                 (let m = real (digits_val ip) + real (digits_val fp) / 10 ^ length fp;
                      e = exponent_part r2;
                      v = (if 0 \<le> e then m * 10 ^ nat e else m / 10 ^ nat (- e))
                  in Num (if neg then - v else v))))"

text \<open>The decimal rendering of a natural number, as \<open>toString()\<close> and templates give it.\<close>

definition digit_char :: "nat \<Rightarrow> char" where
  "digit_char d = ''0123456789'' ! d"

fun nat_toString :: "nat \<Rightarrow> string" where
  "nat_toString n =
     (if n < 10 then [digit_char n] else nat_toString (n div 10) @ [digit_char (n mod 10)])"

declare nat_toString.simps [simp del]

section \<open>Domain errors (domain/errors.ts)\<close>

datatype CarrierErrorCode =
    VALIDATION_ERROR
  | AUTHENTICATION_ERROR
  | AUTHORIZATION_ERROR
  | RATE_LIMIT_ERROR
  | CARRIER_API_ERROR
  | NETWORK_ERROR
  | TIMEOUT_ERROR
  | PARSE_ERROR
  | CONFIGURATION_ERROR
  | UNKNOWN_ERROR

record CarrierErrorDetails =
  carrier :: "string option"
  httpStatus :: "nat option"
  upstreamCode :: "string option"
  upstreamMessage :: "string option"
  retryable :: bool

record CarrierError =
  code :: CarrierErrorCode
  message :: string
  details :: CarrierErrorDetails

text \<open>
  The constructor spreads the given details over \<open>{ retryable: false }\<close>; a partial
  details object is written as an update of \<open>no_details\<close>.
\<close>

definition no_details :: CarrierErrorDetails where
  "no_details = \<lparr>carrier = None, httpStatus = None, upstreamCode = None,
                  upstreamMessage = None, retryable = False\<rparr>"

definition new_CarrierError ::
  "CarrierErrorCode \<Rightarrow> string \<Rightarrow> CarrierErrorDetails \<Rightarrow> CarrierError" where
  "new_CarrierError c m d = \<lparr>code = c, message = m, details = d\<rparr>"

section \<open>HTTP client (http/client.ts)\<close>

text \<open>
  The body of a failed response, seen through the casts of \<open>extractUpstreamErrors\<close>:
  \<open>{ response: { errors: [{ code, message }] } }\<close>, every level optional.
\<close>

record upstream_error_item =
  item_code :: "string option"
  item_message :: "string option"

record error_envelope =
  env_errors :: "upstream_error_item list option"

record error_body =
  body_response :: "error_envelope option"

record axios_response =
  status :: nat
  data :: "error_body option"

record AxiosError =
  ax_code :: "string option"
  ax_message :: string
  ax_response :: "axios_response option"

text \<open>What a \<open>catch\<close> clause can receive.\<close>

datatype thrown =
    ThrownCarrierError CarrierError
  | ThrownAxiosError AxiosError
  | ThrownError string
  | ThrownValue

definition extractUpstreamErrors :: "error_body option \<Rightarrow> (string \<times> string) option" where
  "extractUpstreamErrors body = (case body of
       None \<Rightarrow> None
     | Some b \<Rightarrow> (case body_response b of
           None \<Rightarrow> None
         | Some r \<Rightarrow> (case env_errors r of
               None \<Rightarrow> None
             | Some [] \<Rightarrow> None
             | Some (e # _) \<Rightarrow>
                 Some (or_default (item_code e) ''UNKNOWN'',
                       or_default (item_message e) ''Unknown carrier error''))))"

definition translateError :: "thrown \<Rightarrow> CarrierError" where
  "translateError error = (case error of
       ThrownCarrierError e \<Rightarrow> e
     | ThrownAxiosError ae \<Rightarrow>
         if ax_code ae = Some ''ECONNABORTED'' \<or> ax_code ae = Some ''ETIMEDOUT''
         then new_CarrierError TIMEOUT_ERROR (''Request timed out: '' @ ax_message ae)
                (no_details\<lparr>retryable := True\<rparr>)
         else (case ax_response ae of
             None \<Rightarrow>
               new_CarrierError NETWORK_ERROR (''Network error: '' @ ax_message ae)
                 (no_details\<lparr>retryable := True\<rparr>)
           | Some resp \<Rightarrow>
               if status resp = 401
               then new_CarrierError AUTHENTICATION_ERROR ''Authentication failed''
                      (no_details\<lparr>httpStatus := Some (status resp), retryable := True\<rparr>)
               else if status resp = 403
               then new_CarrierError AUTHORIZATION_ERROR ''Authorization denied''
                      (no_details\<lparr>httpStatus := Some (status resp), retryable := False\<rparr>)
               else if status resp = 429
               then new_CarrierError RATE_LIMIT_ERROR ''Rate limit exceeded''
                      (no_details\<lparr>httpStatus := Some (status resp), retryable := True\<rparr>)
               else
                 (let upstreamErrors = extractUpstreamErrors (data resp)
                  in new_CarrierError CARRIER_API_ERROR
                       (or_default (map_option snd upstreamErrors)
                          (''Carrier API returned HTTP '' @ nat_toString (status resp)))
                       (no_details\<lparr>httpStatus := Some (status resp),
                          upstreamCode := map_option fst upstreamErrors,
                          upstreamMessage := map_option snd upstreamErrors,
                          retryable := (500 \<le> status resp)\<rparr>)))
     | ThrownError m \<Rightarrow>
         new_CarrierError UNKNOWN_ERROR m (no_details\<lparr>retryable := False\<rparr>)
     | ThrownValue \<Rightarrow>
         new_CarrierError UNKNOWN_ERROR ''An unknown error occurred''
           (no_details\<lparr>retryable := False\<rparr>))"


text \<open>
  \<open>HttpClient.post\<close>: the outcome of the underlying request is either a rejection with
  what was thrown, or the response; a rejection is rethrown translated.
\<close>

datatype 'a post_outcome = PostRejected thrown | PostResolved 'a

definition httpClient_post :: "'a post_outcome \<Rightarrow> CarrierError + 'a" where
  "httpClient_post out = (case out of
       PostRejected err \<Rightarrow> Inl (translateError err)
     | PostResolved d \<Rightarrow> Inr d)"

section \<open>Token manager (carriers/ups/auth.ts)\<close>

record TokenCache =
  accessToken :: string
  expiresAt :: jsnum

definition TOKEN_EXPIRY_BUFFER_MS :: jsnum where
  "TOKEN_EXPIRY_BUFFER_MS = Num 60000"

text \<open>
  The data of the token response. \<open>NullData m\<close> is a body that cannot be destructured
  (\<open>null\<close>); \<open>m\<close> is the message of the resulting \<open>TypeError\<close>. A body that is not
  an object has neither field.
\<close>

datatype oauth_data =
    NullData string
  | TokenData (access_token: "string option") (expires_in: "string option")

text \<open>The \<open>catch\<close> clause of \<open>fetchToken\<close>.\<close>

definition auth_failed :: "string \<Rightarrow> CarrierError" where
  "auth_failed cause =
     new_CarrierError AUTHENTICATION_ERROR (''UPS authentication failed: '' @ cause)
       (no_details\<lparr>carrier := Some ''UPS'', retryable := True\<rparr>)"

definition fetchToken_catch :: "thrown \<Rightarrow> CarrierError" where
  "fetchToken_catch error = (case error of
       ThrownCarrierError e \<Rightarrow>
         if code e = AUTHENTICATION_ERROR then e else auth_failed (message e)
     | ThrownAxiosError ae \<Rightarrow> auth_failed (ax_message ae)
     | ThrownError m \<Rightarrow> auth_failed m
     | ThrownValue \<Rightarrow> auth_failed ''unknown error'')"

text \<open>
  \<open>fetchToken\<close> from the moment the exchange settles: \<open>now\<close> is \<open>Date.now()\<close> then,
  the result is the outcome of the promise and the cache it leaves.
\<close>

definition fetchToken ::
  "int \<Rightarrow> oauth_data post_outcome \<Rightarrow> TokenCache option
     \<Rightarrow> (CarrierError + string) \<times> TokenCache option" where
  "fetchToken now out c = (case httpClient_post out of
       Inl e \<Rightarrow> (Inl (fetchToken_catch (ThrownCarrierError e)), c)
     | Inr (NullData m) \<Rightarrow> (Inl (fetchToken_catch (ThrownError m)), c)
     | Inr (TokenData tok ei) \<Rightarrow>
         if \<not> truthy tok
         then (Inl (fetchToken_catch (ThrownCarrierError
                 (new_CarrierError AUTHENTICATION_ERROR
                    ''UPS OAuth response missing access_token''
                    (no_details\<lparr>carrier := Some ''UPS'', retryable := True\<rparr>)))), c)
         else
           (let expiresInMs =
                  js_mul (parseInt10 (case ei of None \<Rightarrow> ''undefined'' | Some e \<Rightarrow> e)) (Num 1000)
            in (Inr (or_default tok []),
                Some \<lparr>accessToken = or_default tok [],
                      expiresAt = js_sub (js_add (Num (real_of_int now)) expiresInMs)
                                    TOKEN_EXPIRY_BUFFER_MS\<rparr>)))"

text \<open>
  The authenticator's state. \<open>pendingRefresh\<close> is the stored promise, represented by the
  callers that hold it; \<open>exchanges\<close> counts the credential exchanges started so far.
\<close>

record auth_state =
  cache :: "TokenCache option"
  pendingRefresh :: "nat list option"
  exchanges :: nat

definition cached_token :: "int \<Rightarrow> auth_state \<Rightarrow> string option" where
  "cached_token now s = (case cache s of
       None \<Rightarrow> None
     | Some c \<Rightarrow> if js_lt (Num (real_of_int now)) (expiresAt c) then Some (accessToken c) else None)"

text \<open>
  \<open>getAccessToken\<close> up to its first suspension, run by \<open>caller\<close> at time \<open>now\<close>: it
  returns the cached token, or takes the stored promise, or starts the exchange and
  stores its promise.
\<close>

definition getAccessToken_call :: "nat \<Rightarrow> int \<Rightarrow> auth_state \<Rightarrow> string option \<times> auth_state" where
  "getAccessToken_call caller now s = (case cached_token now s of
       Some tok \<Rightarrow> (Some tok, s)
     | None \<Rightarrow> (case pendingRefresh s of
           Some ws \<Rightarrow> (None, s\<lparr>pendingRefresh := Some (ws @ [caller])\<rparr>)
         | None \<Rightarrow> (None, s\<lparr>pendingRefresh := Some [caller],
                              exchanges := Suc (exchanges s)\<rparr>)))"

text \<open>
  The exchange settles at time \<open>now\<close>: \<open>fetchToken\<close> finishes, then the \<open>finally\<close> of
  the caller that started it clears the stored promise. That caller's continuation is
  the first reaction registered on the promise; the two are taken as one step, so a
  call running between them is not part of the model.
\<close>

definition settle_refresh ::
  "int \<Rightarrow> oauth_data post_outcome \<Rightarrow> auth_state \<Rightarrow> (CarrierError + string) \<times> auth_state" where
  "settle_refresh now out s =
     (let (r, c) = fetchToken now out (cache s)
      in (r, s\<lparr>cache := c, pendingRefresh := None\<rparr>))"

definition invalidateToken :: "auth_state \<Rightarrow> auth_state" where
  "invalidateToken s = s\<lparr>cache := None\<rparr>"

text \<open>
  The authenticator under interleaved calls. Code between two suspension points runs
  without interruption, so a run is a sequence of events; each event yields the calls
  it resolves, with their outcome.
\<close>

datatype auth_event =
    Call nat int
  | Settle int "oauth_data post_outcome"
  | Invalidate

definition auth_step ::
  "auth_event \<Rightarrow> auth_state \<Rightarrow> (nat \<times> (CarrierError + string)) list \<times> auth_state" where
  "auth_step ev s = (case ev of
       Call caller now \<Rightarrow> (case getAccessToken_call caller now s of
           (Some tok, s') \<Rightarrow> ([(caller, Inr tok)], s')
         | (None, s') \<Rightarrow> ([], s'))
     | Settle now out \<Rightarrow> (case pendingRefresh s of
           None \<Rightarrow> ([], s)
         | Some ws \<Rightarrow> (case settle_refresh now out s of
               (r, s') \<Rightarrow> (map (\<lambda>w. (w, r)) ws, s')))
     | Invalidate \<Rightarrow> ([], invalidateToken s))"

fun auth_run ::
  "auth_event list \<Rightarrow> auth_state \<Rightarrow> (nat \<times> (CarrierError + string)) list \<times> auth_state" where
  "auth_run [] s = ([], s)"
| "auth_run (ev # evs) s =
     (case auth_step ev s of (ds, s') \<Rightarrow>
        (case auth_run evs s' of (ds', s'') \<Rightarrow> (ds @ ds', s'')))"

text \<open>One call awaited to its end, the exchange (if one is needed) settling at \<open>t_settle\<close>.\<close>

definition getAccessToken ::
  "int \<Rightarrow> int \<Rightarrow> oauth_data post_outcome \<Rightarrow> auth_state
     \<Rightarrow> (CarrierError + string) \<times> auth_state" where
  "getAccessToken t_call t_settle out s = (case getAccessToken_call 0 t_call s of
       (Some tok, s') \<Rightarrow> (Inr tok, s')
     | (None, s') \<Rightarrow> settle_refresh t_settle out s')"


section \<open>Domain models (domain/models.ts)\<close>

datatype WeightUnit = LB | KG | OZ

datatype DimensionUnit = IN | CM

record Address =
  name :: "string option"
  addressLines :: "string list"
  city :: string
  stateProvinceCode :: "string option"
  postalCode :: string
  countryCode :: string
  residential :: "bool option"

record Dimensions =
  length_d :: jsnum
  width :: jsnum
  height :: jsnum
  unit_d :: DimensionUnit

record PackageWeight =
  value_w :: jsnum
  unit_w :: WeightUnit

record Package =
  weight :: PackageWeight
  dimensions :: "Dimensions option"

record RateRequest =
  origin :: Address
  destination :: Address
  packages :: "Package list"
  serviceCode :: "string option"
  shipperAccountNumber :: "string option"

record MonetaryAmount =
  currency :: string
  amount :: jsnum

text \<open>
  Reading \<open>table[key]\<close> on an object literal finds the literal's own entries and, for
  any other key, what the literal inherits from \<open>Object.prototype\<close>. An inherited
  property is a function or an object, hence truthy.
\<close>

datatype 'a property = Own 'a | Inherited string

definition object_prototype_keys :: "string list" where
  "object_prototype_keys =
     [''constructor'', ''__proto__'', ''hasOwnProperty'', ''isPrototypeOf'',
      ''propertyIsEnumerable'', ''toLocaleString'', ''toString'', ''valueOf'',
      ''__defineGetter__'', ''__defineSetter__'', ''__lookupGetter__'', ''__lookupSetter__'']"

definition object_get :: "(string \<times> 'a) list \<Rightarrow> string \<Rightarrow> 'a property option" where
  "object_get table key = (case map_of table key of
       Some v \<Rightarrow> Some (Own v)
     | None \<Rightarrow> if key \<in> set object_prototype_keys then Some (Inherited key) else None)"

definition truthy_property :: "string property option \<Rightarrow> bool" where
  "truthy_property v = (case v of
       None \<Rightarrow> False
     | Some (Own s) \<Rightarrow> s \<noteq> []
     | Some (Inherited k) \<Rightarrow> True)"

record BillingWeight_q =
  value_bw :: jsnum
  unit_bw :: "WeightUnit property"

record RateQuote =
  carrier_q :: string
  serviceCode_q :: string
  serviceName :: "string property"
  totalCharges :: MonetaryAmount
  transportationCharges :: MonetaryAmount
  serviceOptionsCharges :: "MonetaryAmount option"
  billingWeight :: "BillingWeight_q option"
  guaranteedDelivery :: "bool option"
  estimatedDeliveryDays :: "jsnum option"
  warnings :: "string list option"

section \<open>UPS wire types (carriers/ups/types.ts)\<close>

record UpsCodeDescription =
  Code_u :: string
  Description_u :: "string option"

record UpsService =
  Code :: string
  Description :: "string property option"

record UpsAddress =
  AddressLine :: "string list"
  City :: "string option"
  StateProvinceCode :: "string option"
  PostalCode :: "string option"
  CountryCode :: string

record UpsShipToAddress = UpsAddress +
  ResidentialAddressIndicator :: "string option"

record UpsShipper =
  Name_shipper :: "string option"
  ShipperNumber :: "string option"
  Address_shipper :: UpsAddress

record UpsShipTo =
  Name_to :: "string option"
  Address_to :: UpsShipToAddress

record UpsShipFrom =
  Name_from :: "string option"
  Address_from :: UpsAddress

record UpsDimensions =
  UnitOfMeasurement_d :: UpsCodeDescription
  Length :: string
  Width :: string
  Height :: string

record UpsWeight =
  UnitOfMeasurement :: UpsCodeDescription
  Weight :: string

record UpsPackage =
  PackagingType :: UpsCodeDescription
  Dimensions_p :: "UpsDimensions option"
  PackageWeight_p :: UpsWeight

text \<open>\<open>Package: UpsPackage | UpsPackage[]\<close>.\<close>

datatype UpsPackageField = Single UpsPackage | Multiple "UpsPackage list"

record UpsBillShipper =
  AccountNumber :: string

record UpsShipmentCharge =
  Type :: string
  BillShipper :: "UpsBillShipper option"

record UpsPaymentDetails =
  ShipmentCharge :: "UpsShipmentCharge list"

record UpsShipment =
  Shipper :: UpsShipper
  ShipTo :: UpsShipTo
  ShipFrom :: UpsShipFrom
  Service :: "UpsService option"
  Package_s :: UpsPackageField
  PaymentDetails :: "UpsPaymentDetails option"
  NumOfPieces :: "string option"

text \<open>\<open>CustomerContext\<close> stands for \<open>Request.TransactionReference.CustomerContext\<close>.\<close>

record UpsRateRequest =
  CustomerContext :: "string option"
  Shipment :: UpsShipment

record UpsRateRequestWrapper =
  RateRequest_w :: UpsRateRequest

record UpsCharge =
  CurrencyCode :: string
  MonetaryValue :: string

record UpsAlert =
  Code_a :: string
  Description_a :: string

record UpsGuaranteedDelivery =
  BusinessDaysInTransit :: "string option"
  DeliveryByTime :: "string option"

record UpsEstimatedArrival =
  BusinessDaysInTransit_ea :: "string option"

record UpsServiceSummary =
  EstimatedArrival :: "UpsEstimatedArrival option"

record UpsTimeInTransit =
  ServiceSummary :: "UpsServiceSummary option"

record UpsRatedShipment =
  Service_r :: UpsService
  RatedShipmentAlert :: "UpsAlert list option"
  BillingWeight :: UpsWeight
  TransportationCharges :: UpsCharge
  ServiceOptionsCharges :: "UpsCharge option"
  TotalCharges :: UpsCharge
  GuaranteedDelivery :: "UpsGuaranteedDelivery option"
  TimeInTransit :: "UpsTimeInTransit option"

text \<open>
  \<open>RatedShipment\<close> is \<open>None\<close> when the field is missing or not an array;
  \<open>RateResponse\<close> is \<open>None\<close> when the envelope is missing.
\<close>

record UpsRateResponse =
  RatedShipment :: "UpsRatedShipment list option"

record UpsRateResponseWrapper =
  RateResponse :: "UpsRateResponse option"

definition UPS_SERVICE_CODES :: "(string \<times> string) list" where
  "UPS_SERVICE_CODES =
     [(''01'', ''UPS Next Day Air''),
      (''02'', ''UPS 2nd Day Air''),
      (''03'', ''UPS Ground''),
      (''07'', ''UPS Worldwide Express''),
      (''08'', ''UPS Worldwide Expedited''),
      (''11'', ''UPS Standard''),
      (''12'', ''UPS 3 Day Select''),
      (''13'', ''UPS Next Day Air Saver''),
      (''14'', ''UPS Next Day Air Early''),
      (''54'', ''UPS Worldwide Express Plus''),
      (''59'', ''UPS 2nd Day Air A.M.''),
      (''65'', ''UPS Worldwide Saver''),
      (''71'', ''UPS Worldwide Express Freight Midday''),
      (''72'', ''UPS Worldwide Economy DDP''),
      (''75'', ''UPS Heavy Goods''),
      (''96'', ''UPS Worldwide Express Freight'')]"

section \<open>Format mapper (carriers/ups/mapper.ts)\<close>

subsection \<open>Domain to UPS\<close>

text \<open>The two outbound tables are indexed by a unit of the domain, so they are total.\<close>

fun WEIGHT_UNIT_TO_UPS :: "WeightUnit \<Rightarrow> string" where
  "WEIGHT_UNIT_TO_UPS LB = ''LBS''"
| "WEIGHT_UNIT_TO_UPS KG = ''KGS''"
| "WEIGHT_UNIT_TO_UPS OZ = ''OZS''"

fun DIMENSION_UNIT_TO_UPS :: "DimensionUnit \<Rightarrow> string" where
  "DIMENSION_UNIT_TO_UPS IN = ''IN''"
| "DIMENSION_UNIT_TO_UPS CM = ''CM''"

text \<open>
  \<open>Number.prototype.toString\<close>; the rendering of a finite value is the parameter
  \<open>ts\<close>.
\<close>

definition number_toString :: "(real \<Rightarrow> string) \<Rightarrow> jsnum \<Rightarrow> string" where
  "number_toString ts x = (case x of
       NaN \<Rightarrow> ''NaN''
     | PosInf \<Rightarrow> ''Infinity''
     | NegInf \<Rightarrow> ''-Infinity''
     | Num r \<Rightarrow> ts r)"

definition mapAddressToUps :: "Address \<Rightarrow> UpsAddress" where
  "mapAddressToUps addr =
     \<lparr>AddressLine = addressLines addr,
      City = Some (city addr),
      StateProvinceCode = stateProvinceCode addr,
      PostalCode = Some (postalCode addr),
      CountryCode = countryCode addr\<rparr>"

definition mapAddressToUpsShipTo :: "Address \<Rightarrow> UpsShipToAddress" where
  "mapAddressToUpsShipTo addr =
     UpsAddress.extend (mapAddressToUps addr)
       (UpsShipToAddress.fields
          (if residential addr = Some True then Some ''Y'' else None))"

definition mapDimensionsToUps :: "(real \<Rightarrow> string) \<Rightarrow> Dimensions \<Rightarrow> UpsDimensions" where
  "mapDimensionsToUps ts d =
     \<lparr>UnitOfMeasurement_d =
        \<lparr>Code_u = DIMENSION_UNIT_TO_UPS (unit_d d),
         Description_u = Some (if unit_d d = IN then ''Inches'' else ''Centimeters'')\<rparr>,
      Length = number_toString ts (length_d d),
      Width = number_toString ts (width d),
      Height = number_toString ts (height d)\<rparr>"

definition mapWeightToUps :: "(real \<Rightarrow> string) \<Rightarrow> PackageWeight \<Rightarrow> UpsWeight" where
  "mapWeightToUps ts w =
     \<lparr>UnitOfMeasurement =
        \<lparr>Code_u = WEIGHT_UNIT_TO_UPS (unit_w w),
         Description_u = Some (if unit_w w = LB then ''Pounds''
                               else if unit_w w = KG then ''Kilograms'' else ''Ounces'')\<rparr>,
      Weight = number_toString ts (value_w w)\<rparr>"

definition mapPackageToUps :: "(real \<Rightarrow> string) \<Rightarrow> Package \<Rightarrow> UpsPackage" where
  "mapPackageToUps ts pkg =
     \<lparr>PackagingType = \<lparr>Code_u = ''02'', Description_u = Some ''Customer Supplied Package''\<rparr>,
      Dimensions_p = map_option (mapDimensionsToUps ts) (dimensions pkg),
      PackageWeight_p = mapWeightToUps ts (weight pkg)\<rparr>"

definition buildUpsRateRequest :: "(real \<Rightarrow> string) \<Rightarrow> RateRequest \<Rightarrow> UpsRateRequestWrapper" where
  "buildUpsRateRequest ts request =
     (let pkgs = map (mapPackageToUps ts) (packages request)
      in \<lparr>RateRequest_w =
           \<lparr>CustomerContext = Some ''carrier-integration-service'',
            Shipment =
              \<lparr>Shipper =
                 \<lparr>Name_shipper = Some (case name (origin request) of
                                          None \<Rightarrow> ''Shipper'' | Some n \<Rightarrow> n),
                  ShipperNumber = shipperAccountNumber request,
                  Address_shipper = mapAddressToUps (origin request)\<rparr>,
               ShipTo =
                 \<lparr>Name_to = Some (case name (destination request) of
                                     None \<Rightarrow> ''Recipient'' | Some n \<Rightarrow> n),
                  Address_to = mapAddressToUpsShipTo (destination request)\<rparr>,
               ShipFrom =
                 \<lparr>Name_from = Some (case name (origin request) of
                                       None \<Rightarrow> ''Shipper'' | Some n \<Rightarrow> n),
                  Address_from = mapAddressToUps (origin request)\<rparr>,
               Service =
                 (if truthy (serviceCode request)
                  then Some \<lparr>Code = or_default (serviceCode request) [],
                             Description = object_get UPS_SERVICE_CODES
                                             (or_default (serviceCode request) [])\<rparr>
                  else None),
               Package_s = (case pkgs of [p] \<Rightarrow> Single p | _ \<Rightarrow> Multiple pkgs),
               PaymentDetails =
                 (if truthy (shipperAccountNumber request)
                  then Some \<lparr>ShipmentCharge =
                               [\<lparr>Type = ''01'',
                                 BillShipper = Some \<lparr>AccountNumber =
                                     or_default (shipperAccountNumber request) []\<rparr>\<rparr>]\<rparr>
                  else None),
               NumOfPieces =
                 (if 1 < length pkgs then Some (nat_toString (length pkgs)) else None)\<rparr>\<rparr>\<rparr>)"

subsection \<open>UPS to domain\<close>

definition UPS_WEIGHT_UNIT_TO_DOMAIN :: "(string \<times> WeightUnit) list" where
  "UPS_WEIGHT_UNIT_TO_DOMAIN = [(''LBS'', LB), (''KGS'', KG), (''OZS'', OZ)]"

definition parseCharge :: "UpsCharge \<Rightarrow> MonetaryAmount" where
  "parseCharge charge =
     \<lparr>currency = CurrencyCode charge, amount = parseFloat (MonetaryValue charge)\<rparr>"

definition mapUpsRatedShipmentToQuote :: "UpsRatedShipment \<Rightarrow> CarrierError + RateQuote" where
  "mapUpsRatedShipmentToQuote rated =
     (let serviceCode = Code (Service_r rated);
          serviceName =
            (case Description (Service_r rated) of
               Some d \<Rightarrow> if truthy_property (Some d) then d
                         else (case object_get UPS_SERVICE_CODES serviceCode of
                                 Some n \<Rightarrow> n
                               | None \<Rightarrow> Own (''UPS Service '' @ serviceCode))
             | None \<Rightarrow> (case object_get UPS_SERVICE_CODES serviceCode of
                          Some n \<Rightarrow> n
                        | None \<Rightarrow> Own (''UPS Service '' @ serviceCode)))
      in case object_get UPS_WEIGHT_UNIT_TO_DOMAIN
                (Code_u (UnitOfMeasurement (BillingWeight rated))) of
           None \<Rightarrow>
             Inl (new_CarrierError PARSE_ERROR
                    (''Unknown UPS weight unit: '' @
                       Code_u (UnitOfMeasurement (BillingWeight rated)))
                    (no_details\<lparr>carrier := Some ''UPS''\<rparr>))
         | Some billingWeightUnit \<Rightarrow>
             (let warnings = map_option (map Description_a) (RatedShipmentAlert rated);
                  direct = (case GuaranteedDelivery rated of
                              None \<Rightarrow> None | Some g \<Rightarrow> BusinessDaysInTransit g);
                  summary = (case TimeInTransit rated of
                               None \<Rightarrow> None
                             | Some t \<Rightarrow> (case ServiceSummary t of
                                   None \<Rightarrow> None
                                 | Some ss \<Rightarrow> (case EstimatedArrival ss of
                                       None \<Rightarrow> None
                                     | Some ea \<Rightarrow> BusinessDaysInTransit_ea ea)));
                  estimatedDeliveryDays =
                    (if truthy direct then Some (parseInt10 (or_default direct []))
                     else if truthy summary then Some (parseInt10 (or_default summary []))
                     else None)
              in Inr \<lparr>carrier_q = ''UPS'',
                      serviceCode_q = serviceCode,
                      serviceName = serviceName,
                      totalCharges = parseCharge (TotalCharges rated),
                      transportationCharges = parseCharge (TransportationCharges rated),
                      serviceOptionsCharges =
                        map_option parseCharge (ServiceOptionsCharges rated),
                      billingWeight =
                        Some \<lparr>value_bw = parseFloat (Weight (BillingWeight rated)),
                              unit_bw = billingWeightUnit\<rparr>,
                      guaranteedDelivery = Some (GuaranteedDelivery rated \<noteq> None),
                      estimatedDeliveryDays = estimatedDeliveryDays,
                      warnings = warnings\<rparr>))"


section \<open>Rating operation (carriers/ups/rating.ts)\<close>

definition API_VERSION :: string where
  "API_VERSION = ''v2409''"

fun map_quotes :: "UpsRatedShipment list \<Rightarrow> CarrierError + RateQuote list" where
  "map_quotes [] = Inr []"
| "map_quotes (r # rs) = (case mapUpsRatedShipmentToQuote r of
       Inl e \<Rightarrow> Inl e
     | Inr q \<Rightarrow> (case map_quotes rs of Inl e \<Rightarrow> Inl e | Inr qs \<Rightarrow> Inr (q # qs)))"

definition parseResponse :: "UpsRateResponseWrapper option \<Rightarrow> CarrierError + RateQuote list" where
  "parseResponse d = (case (case d of None \<Rightarrow> None | Some w \<Rightarrow> RateResponse w) of
       None \<Rightarrow>
         Inl (new_CarrierError PARSE_ERROR ''UPS response missing RateResponse envelope''
                (no_details\<lparr>carrier := Some ''UPS''\<rparr>))
     | Some rateResponse \<Rightarrow> (case RatedShipment rateResponse of
           None \<Rightarrow>
             Inl (new_CarrierError PARSE_ERROR
                    ''UPS response missing or invalid RatedShipment array''
                    (no_details\<lparr>carrier := Some ''UPS''\<rparr>))
         | Some ratedShipments \<Rightarrow> map_quotes ratedShipments))"

text \<open>
  The \<open>catch\<close> clause around the rating request: what is rethrown, and the
  authenticator's state afterwards.
\<close>

definition send_catch :: "thrown \<Rightarrow> auth_state \<Rightarrow> CarrierError \<times> auth_state" where
  "send_catch error a = (case error of
       ThrownCarrierError e \<Rightarrow>
         (e\<lparr>details := (details e)\<lparr>carrier := Some ''UPS''\<rparr>\<rparr>,
          if code e = AUTHENTICATION_ERROR then invalidateToken a else a)
     | ThrownAxiosError ae \<Rightarrow>
         (new_CarrierError UNKNOWN_ERROR (''UPS rating request failed: '' @ ax_message ae)
            (no_details\<lparr>carrier := Some ''UPS'', retryable := False\<rparr>), a)
     | ThrownError m \<Rightarrow>
         (new_CarrierError UNKNOWN_ERROR (''UPS rating request failed: '' @ m)
            (no_details\<lparr>carrier := Some ''UPS'', retryable := False\<rparr>), a)
     | ThrownValue \<Rightarrow>
         (new_CarrierError UNKNOWN_ERROR (''UPS rating request failed: '' @ ''unknown'')
            (no_details\<lparr>carrier := Some ''UPS'', retryable := False\<rparr>), a))"

text \<open>
  The state of one UPS client: its authenticator, and the number of rating requests
  sent so far.
\<close>

record ups_state =
  auth :: auth_state
  ratingCalls :: nat

text \<open>
  What one call meets outside the program: the clock at the call and when the
  credential exchange settles, the outcome of that exchange, and the rating endpoint's
  answer to a URL, a body and a bearer token.

  In \<open>execute\<close> the authenticator is \<open>UpsAuthenticator\<close>, as the client wires it. Its
  failures and those of \<open>HttpClient.post\<close> are \<open>CarrierError\<close>s, so the first \<open>catch\<close>
  clause rethrows what it caught and the second runs \<open>send_catch\<close> on a
  \<open>CarrierError\<close>. The per-request \<open>transId\<close> header does not affect the result and is
  left out.
\<close>

record call_env =
  t_call :: int
  t_settle :: int
  oauth_outcome :: "oauth_data post_outcome"
  rating_outcome ::
    "string \<Rightarrow> UpsRateRequestWrapper \<Rightarrow> string \<Rightarrow> UpsRateResponseWrapper option post_outcome"

definition requestOption :: "RateRequest \<Rightarrow> string" where
  "requestOption request = (if truthy (serviceCode request) then ''Rate'' else ''Shop'')"

definition rating_url :: "RateRequest \<Rightarrow> string" where
  "rating_url request = ''/rating/'' @ API_VERSION @ ''/'' @ requestOption request"

definition execute ::
  "(real \<Rightarrow> string) \<Rightarrow> call_env \<Rightarrow> RateRequest \<Rightarrow> ups_state
     \<Rightarrow> (CarrierError + RateQuote list) \<times> ups_state" where
  "execute ts env request s =
     (let upsRequest = buildUpsRateRequest ts request;
          url = rating_url request
      in case getAccessToken (t_call env) (t_settle env) (oauth_outcome env) (auth s) of
           (Inl e, a) \<Rightarrow> (Inl e, s\<lparr>auth := a\<rparr>)
         | (Inr token, a) \<Rightarrow>
             (case httpClient_post (rating_outcome env url upsRequest token) of
                Inl e \<Rightarrow> (case send_catch (ThrownCarrierError e) a of
                    (e', a') \<Rightarrow> (Inl e', s\<lparr>auth := a', ratingCalls := Suc (ratingCalls s)\<rparr>))
              | Inr d \<Rightarrow>
                  (parseResponse d, s\<lparr>auth := a, ratingCalls := Suc (ratingCalls s)\<rparr>)))"

section \<open>Validation (validation/schemas.ts)\<close>

record ZodIssue =
  path :: "string list"
  issue_message :: string

text \<open>
  The checks that carry no message of their own report the library's wording, which
  is the parameter \<open>zm\<close> of the schemas.
\<close>

datatype zod_default =
    too_small_string nat
  | too_big_string nat
  | too_big_array nat
  | invalid_type_number

definition check_min_max ::
  "(zod_default \<Rightarrow> string) \<Rightarrow> string list \<Rightarrow> nat \<Rightarrow> nat \<Rightarrow> string \<Rightarrow> ZodIssue list" where
  "check_min_max zm p lo hi v =
     (if length v < lo then [\<lparr>path = p, issue_message = zm (too_small_string lo)\<rparr>] else []) @
     (if hi < length v then [\<lparr>path = p, issue_message = zm (too_big_string hi)\<rparr>] else [])"

definition check_length :: "string list \<Rightarrow> nat \<Rightarrow> string \<Rightarrow> string \<Rightarrow> ZodIssue list" where
  "check_length p n msg v =
     (if length v \<noteq> n then [\<lparr>path = p, issue_message = msg\<rparr>] else [])"

definition check_positive ::
  "(zod_default \<Rightarrow> string) \<Rightarrow> string list \<Rightarrow> string \<Rightarrow> jsnum \<Rightarrow> ZodIssue list" where
  "check_positive zm p msg v =
     (if v = NaN then [\<lparr>path = p, issue_message = zm invalid_type_number\<rparr>]
      else if js_lt (Num 0) v then []
      else [\<lparr>path = p, issue_message = msg\<rparr>])"

definition optional :: "('a \<Rightarrow> ZodIssue list) \<Rightarrow> 'a option \<Rightarrow> ZodIssue list" where
  "optional f v = (case v of None \<Rightarrow> [] | Some x \<Rightarrow> f x)"

definition AddressSchema ::
  "(zod_default \<Rightarrow> string) \<Rightarrow> string list \<Rightarrow> Address \<Rightarrow> ZodIssue list" where
  "AddressSchema zm p addr =
     optional (check_min_max zm (p @ [''name'']) 1 35) (name addr) @
     (if length (addressLines addr) < 1
      then [\<lparr>path = p @ [''addressLines''],
             issue_message = ''At least one address line is required''\<rparr>]
      else []) @
     (if 3 < length (addressLines addr)
      then [\<lparr>path = p @ [''addressLines''], issue_message = zm (too_big_array 3)\<rparr>]
      else []) @
     concat (map (\<lambda>(i, l). check_min_max zm (p @ [''addressLines'', nat_toString i]) 1 35 l)
               (enumerate 0 (addressLines addr))) @
     check_min_max zm (p @ [''city'']) 1 30 (city addr) @
     optional (check_length (p @ [''stateProvinceCode'']) 2
                 ''State/province code must be exactly 2 characters'')
       (stateProvinceCode addr) @
     check_min_max zm (p @ [''postalCode'']) 1 9 (postalCode addr) @
     check_length (p @ [''countryCode'']) 2 ''Country code must be exactly 2 characters''
       (countryCode addr)"

definition DimensionsSchema ::
  "(zod_default \<Rightarrow> string) \<Rightarrow> string list \<Rightarrow> Dimensions \<Rightarrow> ZodIssue list" where
  "DimensionsSchema zm p d =
     check_positive zm (p @ [''length'']) ''Length must be positive'' (length_d d) @
     check_positive zm (p @ [''width'']) ''Width must be positive'' (width d) @
     check_positive zm (p @ [''height'']) ''Height must be positive'' (height d)"

definition PackageWeightSchema ::
  "(zod_default \<Rightarrow> string) \<Rightarrow> string list \<Rightarrow> PackageWeight \<Rightarrow> ZodIssue list" where
  "PackageWeightSchema zm p w =
     check_positive zm (p @ [''value'']) ''Weight must be positive'' (value_w w)"

definition PackageSchema ::
  "(zod_default \<Rightarrow> string) \<Rightarrow> string list \<Rightarrow> Package \<Rightarrow> ZodIssue list" where
  "PackageSchema zm p pkg =
     PackageWeightSchema zm (p @ [''weight'']) (weight pkg) @
     optional (DimensionsSchema zm (p @ [''dimensions''])) (dimensions pkg)"

text \<open>\<open>RateRequestSchema.safeParse\<close>: the issues found; the parse succeeds when there is none.\<close>

definition RateRequestSchema :: "(zod_default \<Rightarrow> string) \<Rightarrow> RateRequest \<Rightarrow> ZodIssue list" where
  "RateRequestSchema zm request =
     AddressSchema zm [''origin''] (origin request) @
     AddressSchema zm [''destination''] (destination request) @
     (if length (packages request) < 1
      then [\<lparr>path = [''packages''], issue_message = ''At least one package is required''\<rparr>]
      else []) @
     (if 200 < length (packages request)
      then [\<lparr>path = [''packages''], issue_message = zm (too_big_array 200)\<rparr>]
      else []) @
     concat (map (\<lambda>(i, pkg). PackageSchema zm [''packages'', nat_toString i] pkg)
               (enumerate 0 (packages request))) @
     optional (check_min_max zm [''shipperAccountNumber''] 6 6) (shipperAccountNumber request)"

section \<open>Carrier client (carriers/ups/client.ts)\<close>

fun str_join :: "string \<Rightarrow> string list \<Rightarrow> string" where
  "str_join sep [] = []"
| "str_join sep [x] = x"
| "str_join sep (x # y # ys) = x @ sep @ str_join sep (y # ys)"

definition formatIssue :: "ZodIssue \<Rightarrow> string" where
  "formatIssue i = str_join ''.'' (path i) @ '': '' @ issue_message i"

definition formatZodError :: "ZodIssue list \<Rightarrow> string" where
  "formatZodError issues = str_join ''; '' (map formatIssue issues)"

definition getRates ::
  "(zod_default \<Rightarrow> string) \<Rightarrow> (real \<Rightarrow> string) \<Rightarrow> call_env \<Rightarrow> RateRequest \<Rightarrow> ups_state
     \<Rightarrow> (CarrierError + RateQuote list) \<times> ups_state" where
  "getRates zm ts env request s =
     (let issues = RateRequestSchema zm request
      in if issues \<noteq> []
         then (Inl (new_CarrierError VALIDATION_ERROR
                      (''Invalid rate request: '' @ formatZodError issues)
                      (no_details\<lparr>carrier := Some ''UPS'', retryable := False\<rparr>)), s)
         else execute ts env request s)"

section \<open>Shipping orchestrator (services/shipping-service.ts)\<close>

text \<open>How a carrier's \<open>getRates\<close> settles, as \<open>Promise.allSettled\<close> reports it.\<close>

datatype settled = Fulfilled "RateQuote list" | Rejected thrown

record CarrierClient =
  client_name :: string
  client_getRates :: "RateRequest \<Rightarrow> settled"

record ShippingRateResult =
  quotes :: "RateQuote list"
  errors :: "(string \<times> CarrierError) list"

text \<open>
  \<open>Array.prototype.sort\<close> with a comparator. A comparator result of \<open>NaN\<close> counts as
  \<open>+0\<close>. The sort is stable; it is modelled by insertion, which for a consistent
  comparator gives the one result every stable sort gives.
\<close>

definition SortCompare :: "('a \<Rightarrow> 'a \<Rightarrow> jsnum) \<Rightarrow> 'a \<Rightarrow> 'a \<Rightarrow> jsnum" where
  "SortCompare comparefn x y = (let v = comparefn x y in if v = NaN then Num 0 else v)"

fun sort_insert :: "('a \<Rightarrow> 'a \<Rightarrow> jsnum) \<Rightarrow> 'a \<Rightarrow> 'a list \<Rightarrow> 'a list" where
  "sort_insert comparefn x [] = [x]"
| "sort_insert comparefn x (y # ys) =
     (if js_lt (Num 0) (SortCompare comparefn x y) then y # sort_insert comparefn x ys
      else x # y # ys)"

definition array_sort :: "('a \<Rightarrow> 'a \<Rightarrow> jsnum) \<Rightarrow> 'a list \<Rightarrow> 'a list" where
  "array_sort comparefn xs = foldr (sort_insert comparefn) xs []"

definition by_totalCharges :: "RateQuote \<Rightarrow> RateQuote \<Rightarrow> jsnum" where
  "by_totalCharges a b = js_sub (amount (totalCharges a)) (amount (totalCharges b))"

text \<open>The error recorded for a rejection, and the body of the loop over the results.\<close>

definition rejection_error :: "thrown \<Rightarrow> CarrierError" where
  "rejection_error reason = (case reason of
       ThrownCarrierError e \<Rightarrow> e
     | ThrownAxiosError ae \<Rightarrow> new_CarrierError UNKNOWN_ERROR (ax_message ae) no_details
     | ThrownError m \<Rightarrow> new_CarrierError UNKNOWN_ERROR m no_details
     | ThrownValue \<Rightarrow> new_CarrierError UNKNOWN_ERROR ''Unknown error'' no_details)"

definition error_entry :: "thrown \<Rightarrow> string \<times> CarrierError" where
  "error_entry reason =
     (let error = rejection_error reason
      in (case carrier (details error) of None \<Rightarrow> ''UNKNOWN'' | Some c \<Rightarrow> c, error))"

fun collect ::
  "settled list \<Rightarrow> RateQuote list \<times> (string \<times> CarrierError) list
     \<Rightarrow> RateQuote list \<times> (string \<times> CarrierError) list" where
  "collect [] acc = acc"
| "collect (Fulfilled qs # rs) (quotes_acc, errors_acc) =
     collect rs (quotes_acc @ qs, errors_acc)"
| "collect (Rejected reason # rs) (quotes_acc, errors_acc) =
     collect rs (quotes_acc, errors_acc @ [error_entry reason])"

definition shopRates :: "CarrierClient list \<Rightarrow> RateRequest \<Rightarrow> CarrierError + ShippingRateResult" where
  "shopRates carriers request =
     (if length carriers = 0
      then Inl (new_CarrierError CONFIGURATION_ERROR ''No carriers registered''
                  (no_details\<lparr>retryable := False\<rparr>))
      else
        (let results = map (\<lambda>client. client_getRates client request) carriers;
             (qs, es) = collect results ([], [])
         in Inr \<lparr>quotes = array_sort by_totalCharges qs, errors = es\<rparr>))"


section \<open>Fixtures and test doubles (tests/fixtures, tests/integration)\<close>

definition VALID_DOMESTIC_RATE_REQUEST :: RateRequest where
  "VALID_DOMESTIC_RATE_REQUEST =
     \<lparr>origin =
        \<lparr>name = Some ''Test Shipper'', addressLines = [''100 Main Street''],
         city = ''Timonium'', stateProvinceCode = Some ''MD'', postalCode = ''21093'',
         countryCode = ''US'', residential = None\<rparr>,
      destination =
        \<lparr>name = Some ''Test Recipient'', addressLines = [''200 Elm Street''],
         city = ''Alpharetta'', stateProvinceCode = Some ''GA'', postalCode = ''30005'',
         countryCode = ''US'', residential = None\<rparr>,
      packages =
        [\<lparr>weight = \<lparr>value_w = Num 5, unit_w = LB\<rparr>,
          dimensions = Some \<lparr>length_d = Num 10, width = Num 8, height = Num 6, unit_d = IN\<rparr>\<rparr>],
      serviceCode = None,
      shipperAccountNumber = None\<rparr>"

definition VALID_MULTI_PACKAGE_REQUEST :: RateRequest where
  "VALID_MULTI_PACKAGE_REQUEST =
     VALID_DOMESTIC_RATE_REQUEST
       \<lparr>packages :=
          [\<lparr>weight = \<lparr>value_w = Num 3, unit_w = LB\<rparr>,
            dimensions = Some \<lparr>length_d = Num 10, width = Num 8, height = Num 6, unit_d = IN\<rparr>\<rparr>,
           \<lparr>weight = \<lparr>value_w = Num 7, unit_w = LB\<rparr>,
            dimensions = Some \<lparr>length_d = Num 15, width = Num 12, height = Num 10,
                                unit_d = IN\<rparr>\<rparr>]\<rparr>"

text \<open>The rated shipment of the mapper's tests.\<close>

definition baseRatedShipment :: UpsRatedShipment where
  "baseRatedShipment =
     \<lparr>Service_r = \<lparr>Code = ''03'', Description = Some (Own ''UPS Ground'')\<rparr>,
      RatedShipmentAlert = None,
      BillingWeight =
        \<lparr>UnitOfMeasurement = \<lparr>Code_u = ''LBS'', Description_u = Some ''Pounds''\<rparr>,
         Weight = ''5.0''\<rparr>,
      TransportationCharges = \<lparr>CurrencyCode = ''USD'', MonetaryValue = ''11.30''\<rparr>,
      ServiceOptionsCharges = Some \<lparr>CurrencyCode = ''USD'', MonetaryValue = ''2.50''\<rparr>,
      TotalCharges = \<lparr>CurrencyCode = ''USD'', MonetaryValue = ''13.80''\<rparr>,
      GuaranteedDelivery = None,
      TimeInTransit = None\<rparr>"

text \<open>A quote of a test double, with the given carrier, service code and total.\<close>

definition mock_quote :: "string \<Rightarrow> string \<Rightarrow> jsnum \<Rightarrow> RateQuote" where
  "mock_quote c sc t =
     \<lparr>carrier_q = c, serviceCode_q = sc, serviceName = Own sc,
      totalCharges = \<lparr>currency = ''USD'', amount = t\<rparr>,
      transportationCharges = \<lparr>currency = ''USD'', amount = t\<rparr>,
      serviceOptionsCharges = None, billingWeight = None, guaranteedDelivery = None,
      estimatedDeliveryDays = None, warnings = None\<rparr>"

text \<open>A test double of a carrier client: its \<open>getRates\<close> settles the same way for every request.\<close>

definition settles_with :: "settled \<Rightarrow> RateRequest \<Rightarrow> settled" where
  "settles_with r request = r"

definition mock_client :: "string \<Rightarrow> settled \<Rightarrow> CarrierClient" where
  "mock_client n r = \<lparr>client_name = n, client_getRates = settles_with r\<rparr>"

text \<open>
  A rendering of numbers for concrete runs: exact for the natural numbers, which is
  all the fixtures contain.
\<close>

definition natural_toString :: "real \<Rightarrow> string" where
  "natural_toString r = nat_toString (nat \<lfloor>r\<rfloor>)"

section \<open>Vocabulary of the properties\<close>

text \<open>The quotes of the carriers that succeeded, in fan-out order, and the reasons of the others.\<close>

fun fulfilled_quotes :: "settled list \<Rightarrow> RateQuote list" where
  "fulfilled_quotes [] = []"
| "fulfilled_quotes (Fulfilled qs # rs) = qs @ fulfilled_quotes rs"
| "fulfilled_quotes (Rejected reason # rs) = fulfilled_quotes rs"

fun rejection_reasons :: "settled list \<Rightarrow> thrown list" where
  "rejection_reasons [] = []"
| "rejection_reasons (Fulfilled qs # rs) = rejection_reasons rs"
| "rejection_reasons (Rejected reason # rs) = reason # rejection_reasons rs"

definition total_amount :: "RateQuote \<Rightarrow> jsnum" where
  "total_amount q = amount (totalCharges q)"

text \<open>\<open>quote[i].totalCharges.amount <= quote[i+1].totalCharges.amount\<close> for all adjacent pairs.\<close>

fun ascending :: "RateQuote list \<Rightarrow> bool" where
  "ascending [] = True"
| "ascending [q] = True"
| "ascending (q # q' # qs) = (js_le (total_amount q) (total_amount q') \<and> ascending (q' # qs))"

text \<open>The quotes whose total is \<open>v\<close>, in the order of the list.\<close>

definition with_total :: "jsnum \<Rightarrow> RateQuote list \<Rightarrow> RateQuote list" where
  "with_total v qs = filter (\<lambda>q. total_amount q = v) qs"


section \<open>Token manager: deduplication of concurrent refreshes\<close>

lemma cached_token_pending [simp]:
  "cached_token t (s\<lparr>pendingRefresh := p\<rparr>) = cached_token t s"
  by (simp add: cached_token_def)

lemma calls_join_pending:
  "pendingRefresh s = Some ws \<Longrightarrow> \<forall>(c, t) \<in> set calls. cached_token t s = None \<Longrightarrow>
   auth_run (map (\<lambda>(c, t). Call c t) calls @ evs) s =
   auth_run evs (s\<lparr>pendingRefresh := Some (ws @ map fst calls)\<rparr>)"
proof (induction calls arbitrary: ws s)
  case Nil
  then have "s\<lparr>pendingRefresh := Some ws\<rparr> = s" by (cases s) simp
  then show ?case by simp
next
  case (Cons a calls)
  obtain c t where a: "a = (c, t)" by (cases a)
  from Cons.prems a have miss: "cached_token t s = None" by simp
  let ?s = "s\<lparr>pendingRefresh := Some (ws @ [c])\<rparr>"
  have step: "auth_step (Call c t) s = ([], ?s)"
    using Cons.prems(1) miss by (simp add: auth_step_def getAccessToken_call_def)
  have "auth_run (map (\<lambda>(c, t). Call c t) calls @ evs) ?s =
        auth_run evs (?s\<lparr>pendingRefresh := Some ((ws @ [c]) @ map fst calls)\<rparr>)"
    using Cons.prems(2) by (intro Cons.IH) auto
  then show ?case using step a by simp
qed

text \<open>
  Claim C1. Let \<open>N \<ge> 1\<close> calls of \<open>getAccessToken\<close> arrive, each finding the cached
  token absent or expired, while no refresh is in flight at the first of them, and let
  the refresh then settle. Exactly one credential exchange has been started (the
  counter goes up by one), and every one of the \<open>N\<close> callers is resolved with the
  outcome of that one refresh: the same token, or the same failure.
\<close>

theorem concurrent_calls_share_one_refresh:
  assumes "pendingRefresh s = None" and "calls \<noteq> []"
    and "\<forall>(c, t) \<in> set calls. cached_token t s = None"
  shows "auth_run (map (\<lambda>(c, t). Call c t) calls @ [Settle t' out]) s =
           (map (\<lambda>(c, t). (c, fst (fetchToken t' out (cache s)))) calls,
            s\<lparr>cache := snd (fetchToken t' out (cache s)),
              pendingRefresh := None,
              exchanges := Suc (exchanges s)\<rparr>)"
proof -
  obtain c t rest where calls: "calls = (c, t) # rest"
    using assms(2) by (cases calls) auto
  let ?s1 = "s\<lparr>pendingRefresh := Some [c], exchanges := Suc (exchanges s)\<rparr>"
  have miss: "cached_token t s = None" using assms(3) calls by simp
  have first: "auth_step (Call c t) s = ([], ?s1)"
    using assms(1) miss by (simp add: auth_step_def getAccessToken_call_def)
  have rest: "\<forall>(c, t) \<in> set rest. cached_token t ?s1 = None"
    using assms(3) calls by (auto simp: cached_token_def)
  have joined: "auth_run (map (\<lambda>(c, t). Call c t) rest @ [Settle t' out]) ?s1 =
        auth_run [Settle t' out] (?s1\<lparr>pendingRefresh := Some ([c] @ map fst rest)\<rparr>)"
    using rest by (intro calls_join_pending) auto
  have settle: "auth_run [Settle t' out] (?s1\<lparr>pendingRefresh := Some ([c] @ map fst rest)\<rparr>) =
        (map (\<lambda>w. (w, fst (fetchToken t' out (cache s)))) (c # map fst rest),
         s\<lparr>cache := snd (fetchToken t' out (cache s)), pendingRefresh := None,
           exchanges := Suc (exchanges s)\<rparr>)"
    by (simp add: auth_step_def settle_refresh_def split: prod.splits)
  have "map (\<lambda>w. (w, fst (fetchToken t' out (cache s)))) (c # map fst rest) =
        map (\<lambda>(c, t). (c, fst (fetchToken t' out (cache s)))) calls"
    using calls by (auto simp: case_prod_beta)
  then show ?thesis using first joined settle calls by simp
qed

theorem concurrent_calls_share_one_refresh_witness:
  "auth_run [Call 1 0, Call 2 0, Call 3 0,
             Settle 5 (PostResolved (TokenData (Some ''test-token'') (Some ''14399'')))]
     \<lparr>cache = None, pendingRefresh = None, exchanges = 0\<rparr> =
   ([(1, Inr ''test-token''), (2, Inr ''test-token''), (3, Inr ''test-token'')],
    \<lparr>cache = Some \<lparr>accessToken = ''test-token'', expiresAt = Num 14339005\<rparr>,
     pendingRefresh = None, exchanges = 1\<rparr>)"
  using concurrent_calls_share_one_refresh
    [of "\<lparr>cache = None, pendingRefresh = None, exchanges = 0\<rparr>" "[(1, 0), (2, 0), (3, 0)]"
        5 "PostResolved (TokenData (Some ''test-token'') (Some ''14399''))"]
  by (simp add: cached_token_def fetchToken_def httpClient_post_def truthy_def or_default_def
        parseInt10_def split_sign_def is_js_whitespace_def is_digit_def digit_of_char_def
        digits_val_def js_sub_def TOKEN_EXPIRY_BUFFER_MS_def)

section \<open>Error translator\<close>

text \<open>
  Claim C4. \<open>translateError\<close> classifies a failure of the HTTP layer in this order of
  priority: a connection timeout is a retryable \<open>TIMEOUT_ERROR\<close>; otherwise, no response
  is a retryable \<open>NETWORK_ERROR\<close>; otherwise status 401 is a retryable
  \<open>AUTHENTICATION_ERROR\<close>, 403 a non-retryable \<open>AUTHORIZATION_ERROR\<close>, 429 a retryable
  \<open>RATE_LIMIT_ERROR\<close>, and any other status a \<open>CARRIER_API_ERROR\<close> that is retryable
  exactly when the status is at least 500 and that carries the code and message of
  \<open>response.errors[0]\<close> as \<open>upstreamCode\<close> and \<open>upstreamMessage\<close> when the body has
  them. Anything that is not an HTTP failure is a non-retryable \<open>UNKNOWN_ERROR\<close>.
\<close>

theorem translateError_classification:
  "(ax_code ae = Some ''ECONNABORTED'' \<or> ax_code ae = Some ''ETIMEDOUT'' \<longrightarrow>
      code (translateError (ThrownAxiosError ae)) = TIMEOUT_ERROR \<and>
      retryable (details (translateError (ThrownAxiosError ae))))
   \<and> (ax_code ae \<noteq> Some ''ECONNABORTED'' \<and> ax_code ae \<noteq> Some ''ETIMEDOUT'' \<longrightarrow>
        (ax_response ae = None \<longrightarrow>
           code (translateError (ThrownAxiosError ae)) = NETWORK_ERROR \<and>
           retryable (details (translateError (ThrownAxiosError ae))))
      \<and> (ax_response ae = Some r \<and> status r = 401 \<longrightarrow>
           code (translateError (ThrownAxiosError ae)) = AUTHENTICATION_ERROR \<and>
           retryable (details (translateError (ThrownAxiosError ae))))
      \<and> (ax_response ae = Some r \<and> status r = 403 \<longrightarrow>
           code (translateError (ThrownAxiosError ae)) = AUTHORIZATION_ERROR \<and>
           \<not> retryable (details (translateError (ThrownAxiosError ae))))
      \<and> (ax_response ae = Some r \<and> status r = 429 \<longrightarrow>
           code (translateError (ThrownAxiosError ae)) = RATE_LIMIT_ERROR \<and>
           retryable (details (translateError (ThrownAxiosError ae))))
      \<and> (ax_response ae = Some r \<and> status r \<noteq> 401 \<and> status r \<noteq> 403 \<and> status r \<noteq> 429 \<longrightarrow>
           code (translateError (ThrownAxiosError ae)) = CARRIER_API_ERROR \<and>
           retryable (details (translateError (ThrownAxiosError ae))) = (500 \<le> status r) \<and>
           httpStatus (details (translateError (ThrownAxiosError ae))) = Some (status r) \<and>
           (data r = Some b \<and> body_response b = Some env \<and>
            env_errors env = Some (item # rest) \<and>
            item_code item = Some c \<and> c \<noteq> [] \<and> item_message item = Some m \<and> m \<noteq> [] \<longrightarrow>
              upstreamCode (details (translateError (ThrownAxiosError ae))) = Some c \<and>
              upstreamMessage (details (translateError (ThrownAxiosError ae))) = Some m)))
   \<and> code (translateError (ThrownError msg)) = UNKNOWN_ERROR
   \<and> \<not> retryable (details (translateError (ThrownError msg)))
   \<and> code (translateError ThrownValue) = UNKNOWN_ERROR
   \<and> \<not> retryable (details (translateError ThrownValue))"
  by (simp add: translateError_def new_CarrierError_def no_details_def
        extractUpstreamErrors_def or_default_def Let_def)

theorem translateError_classification_witness:
  "code (translateError (ThrownAxiosError
      \<lparr>ax_code = Some ''ERR_BAD_REQUEST'', ax_message = ''Request failed with status code 400'',
       ax_response = Some \<lparr>status = 400, data = Some \<lparr>body_response = Some \<lparr>env_errors = Some
          [\<lparr>item_code = Some ''111210'', item_message = Some ''unavailable''\<rparr>]\<rparr>\<rparr>\<rparr>\<rparr>)) = CARRIER_API_ERROR
   \<and> \<not> retryable (details (translateError (ThrownAxiosError
      \<lparr>ax_code = Some ''ERR_BAD_REQUEST'', ax_message = ''Request failed with status code 400'',
       ax_response = Some \<lparr>status = 400, data = Some \<lparr>body_response = Some \<lparr>env_errors = Some
          [\<lparr>item_code = Some ''111210'', item_message = Some ''unavailable''\<rparr>]\<rparr>\<rparr>\<rparr>\<rparr>)))
   \<and> upstreamCode (details (translateError (ThrownAxiosError
      \<lparr>ax_code = Some ''ERR_BAD_REQUEST'', ax_message = ''Request failed with status code 400'',
       ax_response = Some \<lparr>status = 400, data = Some \<lparr>body_response = Some \<lparr>env_errors = Some
          [\<lparr>item_code = Some ''111210'', item_message = Some ''unavailable''\<rparr>]\<rparr>\<rparr>\<rparr>\<rparr>))) = Some ''111210''
   \<and> code (translateError (ThrownAxiosError
      \<lparr>ax_code = Some ''ECONNABORTED'', ax_message = ''timeout of 10000ms exceeded'',
       ax_response = None\<rparr>)) = TIMEOUT_ERROR
   \<and> code (translateError (ThrownAxiosError
      \<lparr>ax_code = Some ''ERR_BAD_REQUEST'', ax_message = ''Request failed with status code 429'',
       ax_response = Some \<lparr>status = 429, data = None\<rparr>\<rparr>)) = RATE_LIMIT_ERROR"
  using translateError_classification
    [of "\<lparr>ax_code = Some ''ERR_BAD_REQUEST'', ax_message = ''Request failed with status code 400'',
       ax_response = Some \<lparr>status = 400, data = Some \<lparr>body_response = Some \<lparr>env_errors = Some
          [\<lparr>item_code = Some ''111210'', item_message = Some ''unavailable''\<rparr>]\<rparr>\<rparr>\<rparr>\<rparr>"
        "\<lparr>status = 400, data = Some \<lparr>body_response = Some \<lparr>env_errors = Some
          [\<lparr>item_code = Some ''111210'', item_message = Some ''unavailable''\<rparr>]\<rparr>\<rparr>\<rparr>"
        "\<lparr>body_response = Some \<lparr>env_errors = Some
          [\<lparr>item_code = Some ''111210'', item_message = Some ''unavailable''\<rparr>]\<rparr>\<rparr>"
        "\<lparr>env_errors = Some
          [\<lparr>item_code = Some ''111210'', item_message = Some ''unavailable''\<rparr>]\<rparr>"
        "\<lparr>item_code = Some ''111210'', item_message = Some ''unavailable''\<rparr>" "[]"
        "''111210''" "''unavailable''"]
    translateError_classification
    [of "\<lparr>ax_code = Some ''ECONNABORTED'', ax_message = ''timeout of 10000ms exceeded'',
       ax_response = None\<rparr>"]
    translateError_classification
    [of "\<lparr>ax_code = Some ''ERR_BAD_REQUEST'', ax_message = ''Request failed with status code 429'',
       ax_response = Some \<lparr>status = 429, data = None\<rparr>\<rparr>" "\<lparr>status = 429, data = None\<rparr>"]
  by simp


section \<open>Token manager: expiry\<close>

text \<open>
  Claim C2. \<open>getAccessToken\<close> returns the cached token at once, leaving the state as it
  is (no exchange), exactly when a token is cached and the clock is strictly before its
  \<open>expiresAt\<close>; otherwise a refresh is in flight after the call. A successful fetch at
  time \<open>t\<close> caches \<open>expiresAt = t + expires_in * 1000 - 60000\<close>. So when
  \<open>expires_in \<le> 60\<close> the token is expired from the moment it is cached: a call at any
  time \<open>t' \<ge> t\<close> starts a new exchange.
\<close>

theorem cached_token_expiry:
  "(fst (getAccessToken_call caller now s) \<noteq> None) =
     (case cache s of None \<Rightarrow> False | Some c \<Rightarrow> js_lt (Num (real_of_int now)) (expiresAt c))
   \<and> (cache s = Some c \<and> js_lt (Num (real_of_int now)) (expiresAt c) \<longrightarrow>
        getAccessToken_call caller now s = (Some (accessToken c), s))
   \<and> (fst (getAccessToken_call caller now s) = None \<longrightarrow>
        pendingRefresh (snd (getAccessToken_call caller now s)) \<noteq> None)
   \<and> (tok \<noteq> [] \<and> parseInt10 e = Num n \<longrightarrow>
        fetchToken t (PostResolved (TokenData (Some tok) (Some e))) c0 =
          (Inr tok, Some \<lparr>accessToken = tok,
                           expiresAt = Num (real_of_int t + n * 1000 - 60000)\<rparr>))
   \<and> (tok \<noteq> [] \<and> parseInt10 e = Num n \<and> n \<le> 60 \<and> t \<le> t' \<longrightarrow>
        settle_refresh t (PostResolved (TokenData (Some tok) (Some e))) s =
          (Inr tok, s\<lparr>cache := Some \<lparr>accessToken = tok,
                                       expiresAt = Num (real_of_int t + n * 1000 - 60000)\<rparr>,
                       pendingRefresh := None\<rparr>) \<and>
        getAccessToken_call caller t'
            (s\<lparr>cache := Some \<lparr>accessToken = tok,
                                expiresAt = Num (real_of_int t + n * 1000 - 60000)\<rparr>,
               pendingRefresh := None\<rparr>) =
          (None, s\<lparr>cache := Some \<lparr>accessToken = tok,
                                     expiresAt = Num (real_of_int t + n * 1000 - 60000)\<rparr>,
                   pendingRefresh := Some [caller],
                   exchanges := Suc (exchanges s)\<rparr>))"
proof -
  have fetch: "fetchToken t (PostResolved (TokenData (Some tok) (Some e))) c0 =
          (Inr tok, Some \<lparr>accessToken = tok,
                           expiresAt = Num (real_of_int t + n * 1000 - 60000)\<rparr>)"
    if "tok \<noteq> []" "parseInt10 e = Num n" for c0
    using that
    by (simp add: fetchToken_def httpClient_post_def truthy_def or_default_def js_sub_def
          TOKEN_EXPIRY_BUFFER_MS_def)
  have a: "(fst (getAccessToken_call caller now s) \<noteq> None) =
     (case cache s of None \<Rightarrow> False | Some c \<Rightarrow> js_lt (Num (real_of_int now)) (expiresAt c))"
    by (simp add: getAccessToken_call_def cached_token_def split: option.splits)
  have b: "cache s = Some c \<and> js_lt (Num (real_of_int now)) (expiresAt c) \<longrightarrow>
        getAccessToken_call caller now s = (Some (accessToken c), s)"
    by (simp add: getAccessToken_call_def cached_token_def)
  have c: "fst (getAccessToken_call caller now s) = None \<longrightarrow>
        pendingRefresh (snd (getAccessToken_call caller now s)) \<noteq> None"
    by (simp add: getAccessToken_call_def split: option.splits)
  have d': "settle_refresh t (PostResolved (TokenData (Some tok) (Some e))) s =
          (Inr tok, s\<lparr>cache := Some \<lparr>accessToken = tok,
                                       expiresAt = Num (real_of_int t + n * 1000 - 60000)\<rparr>,
                       pendingRefresh := None\<rparr>)"
    if "tok \<noteq> []" "parseInt10 e = Num n"
    using fetch[OF that] by (simp add: settle_refresh_def)
  have d: "getAccessToken_call caller t'
            (s\<lparr>cache := Some \<lparr>accessToken = tok,
                                expiresAt = Num (real_of_int t + n * 1000 - 60000)\<rparr>,
               pendingRefresh := None\<rparr>) =
          (None, s\<lparr>cache := Some \<lparr>accessToken = tok,
                                     expiresAt = Num (real_of_int t + n * 1000 - 60000)\<rparr>,
                   pendingRefresh := Some [caller],
                   exchanges := Suc (exchanges s)\<rparr>)"
    if "n \<le> 60" "t \<le> t'"
  proof -
    have "real_of_int t + n * 1000 - 60000 \<le> real_of_int t'" using that by simp
    then show ?thesis by (simp add: getAccessToken_call_def cached_token_def)
  qed
  show ?thesis using a b c d d' fetch by blast
qed

theorem cached_token_expiry_witness:
  "fetchToken 1000 (PostResolved (TokenData (Some ''expired-token'') (Some ''1''))) None =
     (Inr ''expired-token'', Some \<lparr>accessToken = ''expired-token'', expiresAt = Num (- 58000)\<rparr>)
   \<and> getAccessToken_call 2 1000
        (snd (settle_refresh 1000 (PostResolved (TokenData (Some ''expired-token'') (Some ''1'')))
               \<lparr>cache = None, pendingRefresh = Some [1], exchanges = 1\<rparr>)) =
     (None, \<lparr>cache = Some \<lparr>accessToken = ''expired-token'', expiresAt = Num (- 58000)\<rparr>,
             pendingRefresh = Some [2], exchanges = 2\<rparr>)
   \<and> getAccessToken_call 3 1000
        \<lparr>cache = Some \<lparr>accessToken = ''valid-token'', expiresAt = Num 14340000\<rparr>,
         pendingRefresh = None, exchanges = 1\<rparr> =
     (Some ''valid-token'',
      \<lparr>cache = Some \<lparr>accessToken = ''valid-token'', expiresAt = Num 14340000\<rparr>,
       pendingRefresh = None, exchanges = 1\<rparr>)"
proof -
  have p: "parseInt10 ''1'' = Num 1"
    by (simp add: parseInt10_def split_sign_def is_js_whitespace_def is_digit_def
          digit_of_char_def digits_val_def)
  note w = cached_token_expiry
      [of 2 1000 "\<lparr>cache = None, pendingRefresh = Some [1], exchanges = 1\<rparr>"
          "\<lparr>accessToken = ''valid-token'', expiresAt = Num 14340000\<rparr>"
          "''expired-token''" "''1''" 1 1000 None 1000]
  from w p have f:
    "fetchToken 1000 (PostResolved (TokenData (Some ''expired-token'') (Some ''1''))) None =
     (Inr ''expired-token'', Some \<lparr>accessToken = ''expired-token'', expiresAt = Num (- 58000)\<rparr>)"
    by simp
  from w p have st:
    "settle_refresh 1000 (PostResolved (TokenData (Some ''expired-token'') (Some ''1'')))
               \<lparr>cache = None, pendingRefresh = Some [1], exchanges = 1\<rparr> =
     (Inr ''expired-token'',
      \<lparr>cache = Some \<lparr>accessToken = ''expired-token'', expiresAt = Num (- 58000)\<rparr>,
       pendingRefresh = None, exchanges = 1\<rparr>)"
    by simp
  from w p have g: "getAccessToken_call 2 1000
        \<lparr>cache = Some \<lparr>accessToken = ''expired-token'', expiresAt = Num (- 58000)\<rparr>,
         pendingRefresh = None, exchanges = 1\<rparr> =
     (None, \<lparr>cache = Some \<lparr>accessToken = ''expired-token'', expiresAt = Num (- 58000)\<rparr>,
             pendingRefresh = Some [2], exchanges = 2\<rparr>)"
    by simp
  have h: "getAccessToken_call 3 1000
        \<lparr>cache = Some \<lparr>accessToken = ''valid-token'', expiresAt = Num 14340000\<rparr>,
         pendingRefresh = None, exchanges = 1\<rparr> =
     (Some ''valid-token'',
      \<lparr>cache = Some \<lparr>accessToken = ''valid-token'', expiresAt = Num 14340000\<rparr>,
       pendingRefresh = None, exchanges = 1\<rparr>)"
    using cached_token_expiry
      [of 3 1000 "\<lparr>cache = Some \<lparr>accessToken = ''valid-token'', expiresAt = Num 14340000\<rparr>,
         pendingRefresh = None, exchanges = 1\<rparr>"
         "\<lparr>accessToken = ''valid-token'', expiresAt = Num 14340000\<rparr>"]
    by simp
  show ?thesis using f g h unfolding st by simp
qed

section \<open>Rating operation: recovery from an authentication failure\<close>

text \<open>
  Claim C5. When the rating request fails with an \<open>AUTHENTICATION_ERROR\<close>, the \<open>catch\<close>
  clause of \<open>execute\<close> invalidates the token and rethrows the error (labelled with
  the carrier); \<open>execute\<close> as a whole ends in the invalidated state. \<open>invalidateToken\<close>
  is total and leaves no cached token whatever the expiry was, so the next
  \<open>getAccessToken\<close> cannot return a cached token: a refresh is in flight after it,
  and when none was in flight before, the call starts a new exchange.
\<close>

theorem auth_failure_invalidates_token:
  "(code e = AUTHENTICATION_ERROR \<longrightarrow>
      send_catch (ThrownCarrierError e) a =
        (e\<lparr>details := (details e)\<lparr>carrier := Some ''UPS''\<rparr>\<rparr>, invalidateToken a))
   \<and> (getAccessToken (t_call env) (t_settle env) (oauth_outcome env) (auth s) = (Inr token, a) \<and>
       rating_outcome env (rating_url request) (buildUpsRateRequest ts request) token =
         PostRejected err \<and>
       code (translateError err) = AUTHENTICATION_ERROR \<longrightarrow>
         execute ts env request s =
           (Inl ((translateError err)
                   \<lparr>details := (details (translateError err))\<lparr>carrier := Some ''UPS''\<rparr>\<rparr>),
            s\<lparr>auth := invalidateToken a, ratingCalls := Suc (ratingCalls s)\<rparr>))
   \<and> cache (invalidateToken a) = None
   \<and> fst (getAccessToken_call caller now (invalidateToken a)) = None
   \<and> pendingRefresh (snd (getAccessToken_call caller now (invalidateToken a))) \<noteq> None
   \<and> (pendingRefresh a = None \<longrightarrow>
        getAccessToken_call caller now (invalidateToken a) =
          (None, a\<lparr>cache := None, pendingRefresh := Some [caller],
                   exchanges := Suc (exchanges a)\<rparr>))"
  by (simp add: send_catch_def execute_def httpClient_post_def invalidateToken_def
        getAccessToken_call_def cached_token_def Let_def split: option.splits)

theorem auth_failure_invalidates_token_witness:
  "execute natural_toString
     \<lparr>t_call = 0, t_settle = 0, oauth_outcome = PostRejected ThrownValue,
      rating_outcome = (\<lambda>url body token. PostRejected (ThrownAxiosError
        \<lparr>ax_code = Some ''ERR_BAD_REQUEST'', ax_message = ''Request failed with status code 401'',
         ax_response = Some \<lparr>status = 401, data = None\<rparr>\<rparr>))\<rparr>
     VALID_DOMESTIC_RATE_REQUEST
     \<lparr>auth = \<lparr>cache = Some \<lparr>accessToken = ''stale-token'', expiresAt = Num 14340000\<rparr>,
              pendingRefresh = None, exchanges = 1\<rparr>, ratingCalls = 0\<rparr> =
   (Inl \<lparr>code = AUTHENTICATION_ERROR, message = ''Authentication failed'',
         details = \<lparr>carrier = Some ''UPS'', httpStatus = Some 401, upstreamCode = None,
                    upstreamMessage = None, retryable = True\<rparr>\<rparr>,
    \<lparr>auth = \<lparr>cache = None, pendingRefresh = None, exchanges = 1\<rparr>, ratingCalls = 1\<rparr>)
   \<and> getAccessToken_call 7 1
         (invalidateToken \<lparr>cache = Some \<lparr>accessToken = ''stale-token'', expiresAt = Num 14340000\<rparr>,
              pendingRefresh = None, exchanges = 1\<rparr>) =
       (None, \<lparr>cache = None, pendingRefresh = Some [7], exchanges = 2\<rparr>)"
proof -
  let ?ae = "\<lparr>ax_code = Some ''ERR_BAD_REQUEST'',
              ax_message = ''Request failed with status code 401'',
              ax_response = Some \<lparr>status = 401, data = None\<rparr>\<rparr>"
  let ?a = "\<lparr>cache = Some \<lparr>accessToken = ''stale-token'', expiresAt = Num 14340000\<rparr>,
              pendingRefresh = None, exchanges = 1\<rparr>"
  let ?env = "\<lparr>t_call = 0, t_settle = 0, oauth_outcome = PostRejected ThrownValue,
      rating_outcome = (\<lambda>url body token. PostRejected (ThrownAxiosError ?ae))\<rparr>"
  have tr: "translateError (ThrownAxiosError ?ae) =
     \<lparr>code = AUTHENTICATION_ERROR, message = ''Authentication failed'',
      details = \<lparr>carrier = None, httpStatus = Some 401, upstreamCode = None,
                 upstreamMessage = None, retryable = True\<rparr>\<rparr>"
    by (simp add: translateError_def new_CarrierError_def no_details_def)
  have tok: "getAccessToken (t_call ?env) (t_settle ?env) (oauth_outcome ?env) ?a =
     (Inr ''stale-token'', ?a)"
    by (simp add: getAccessToken_def getAccessToken_call_def cached_token_def)
  note w = auth_failure_invalidates_token
    [of "translateError (ThrownAxiosError ?ae)" ?a ?env "\<lparr>auth = ?a, ratingCalls = 0\<rparr>"
        "''stale-token''" VALID_DOMESTIC_RATE_REQUEST natural_toString "ThrownAxiosError ?ae" 7 1]
  from w tok tr show ?thesis by (simp add: invalidateToken_def)
qed

section \<open>Token manager: failures\<close>

lemma translateError_axios_auth_retryable:
  "code (translateError (ThrownAxiosError ae)) = AUTHENTICATION_ERROR \<Longrightarrow>
   retryable (details (translateError (ThrownAxiosError ae)))"
  by (auto simp: translateError_def new_CarrierError_def no_details_def Let_def
      split: if_splits option.splits)

lemma fetchToken_catch_auth:
  "code (fetchToken_catch err) = AUTHENTICATION_ERROR"
  by (cases err) (simp_all add: fetchToken_catch_def auth_failed_def new_CarrierError_def)

lemma fetchToken_catch_wrapped:
  "fetchToken_catch (ThrownCarrierError e) = e \<and> code e = AUTHENTICATION_ERROR \<or>
   retryable (details (fetchToken_catch (ThrownCarrierError e))) \<and>
   carrier (details (fetchToken_catch (ThrownCarrierError e))) = Some ''UPS''"
  by (simp add: fetchToken_catch_def auth_failed_def new_CarrierError_def no_details_def)

lemma fetchToken_failure:
  assumes "fst (fetchToken now out c) = Inl e"
  shows "code e = AUTHENTICATION_ERROR \<and>
     ((\<exists>err. out = PostRejected err \<and> code (translateError err) = AUTHENTICATION_ERROR \<and>
             e = translateError err) \<or>
      (retryable (details e) \<and> carrier (details e) = Some ''UPS'')) \<and>
     ((\<forall>e0. out \<noteq> PostRejected (ThrownCarrierError e0)) \<longrightarrow> retryable (details e))"
proof (cases out)
  case (PostRejected err)
  then have e: "e = fetchToken_catch (ThrownCarrierError (translateError err))"
    using assms by (simp add: fetchToken_def httpClient_post_def)
  have 1: "code e = AUTHENTICATION_ERROR" unfolding e by (rule fetchToken_catch_auth)
  have 2: "(code (translateError err) = AUTHENTICATION_ERROR \<and> e = translateError err) \<or>
           (retryable (details e) \<and> carrier (details e) = Some ''UPS'')"
    unfolding e using fetchToken_catch_wrapped[of "translateError err"] by auto
  have 3: "retryable (details e)" if "\<forall>e0. err \<noteq> ThrownCarrierError e0"
  proof (cases err)
    case (ThrownCarrierError x)
    then show ?thesis using that by simp
  next
    case (ThrownAxiosError ae)
    then show ?thesis using 2 translateError_axios_auth_retryable[of ae] by auto
  next
    case (ThrownError m)
    then show ?thesis using 2 by (auto simp: translateError_def new_CarrierError_def)
  next
    case ThrownValue
    then show ?thesis using 2 by (auto simp: translateError_def new_CarrierError_def)
  qed
  show ?thesis using 1 2 3 PostRejected by auto
next
  case (PostResolved d)
  show ?thesis
  proof (cases d)
    case (NullData m)
    then have "e = fetchToken_catch (ThrownError m)"
      using assms PostResolved by (simp add: fetchToken_def httpClient_post_def)
    then show ?thesis using PostResolved
      by (simp add: fetchToken_catch_def auth_failed_def new_CarrierError_def no_details_def)
  next
    case (TokenData tok ei)
    then have "e = new_CarrierError AUTHENTICATION_ERROR
                    ''UPS OAuth response missing access_token''
                    (no_details\<lparr>carrier := Some ''UPS'', retryable := True\<rparr>)"
      using assms PostResolved
      by (simp add: fetchToken_def httpClient_post_def fetchToken_catch_def new_CarrierError_def
            Let_def split: if_splits)
    then show ?thesis using PostResolved
      by (simp add: new_CarrierError_def no_details_def)
  qed
qed

text \<open>
  Claim C6. \<open>getAccessToken\<close> fails only through the exchange, and then always with an
  \<open>AUTHENTICATION_ERROR\<close>. With no valid cached token: an exchange whose failure the
  HTTP layer classifies as \<open>AUTHENTICATION_ERROR\<close> makes the call fail with that very
  error, unchanged; any other failure of the exchange (network, timeout, another
  status) makes it fail with a retryable wrapper that names the carrier and quotes the
  cause; so does a body that cannot be read; a response whose \<open>access_token\<close> is missing
  or empty makes it fail with the retryable "missing access_token" error; and a
  response with a token makes it succeed with that token. With a valid cached token
  the call succeeds. The error rethrown unchanged is retryable too when it stems from a
  response (status 401). Hence every failure is an \<open>AUTHENTICATION_ERROR\<close> that is either
  the unchanged error of the exchange or a retryable wrapper, and it is retryable
  unless the HTTP layer was handed a ready-made \<open>CarrierError\<close>.
\<close>

theorem getAccessToken_fails_with_authentication_error:
  "(cached_token t1 s = Some cached \<longrightarrow> fst (getAccessToken t1 t2 out s) = Inr cached)
   \<and> (cached_token t1 s = None \<longrightarrow>
        (out = PostRejected err \<and> code (translateError err) = AUTHENTICATION_ERROR \<longrightarrow>
           fst (getAccessToken t1 t2 out s) = Inl (translateError err))
      \<and> (out = PostRejected err \<and> code (translateError err) \<noteq> AUTHENTICATION_ERROR \<longrightarrow>
           fst (getAccessToken t1 t2 out s) =
             Inl (new_CarrierError AUTHENTICATION_ERROR
                    (''UPS authentication failed: '' @ message (translateError err))
                    (no_details\<lparr>carrier := Some ''UPS'', retryable := True\<rparr>)))
      \<and> (out = PostResolved (NullData m) \<longrightarrow>
           fst (getAccessToken t1 t2 out s) =
             Inl (new_CarrierError AUTHENTICATION_ERROR (''UPS authentication failed: '' @ m)
                    (no_details\<lparr>carrier := Some ''UPS'', retryable := True\<rparr>)))
      \<and> (out = PostResolved (TokenData tok ei) \<and> (tok = None \<or> tok = Some []) \<longrightarrow>
           fst (getAccessToken t1 t2 out s) =
             Inl (new_CarrierError AUTHENTICATION_ERROR
                    ''UPS OAuth response missing access_token''
                    (no_details\<lparr>carrier := Some ''UPS'', retryable := True\<rparr>)))
      \<and> (out = PostResolved (TokenData (Some token) ei) \<and> token \<noteq> [] \<longrightarrow>
           fst (getAccessToken t1 t2 out s) = Inr token))
   \<and> (out = PostRejected (ThrownAxiosError ae) \<and>
       code (translateError (ThrownAxiosError ae)) = AUTHENTICATION_ERROR \<longrightarrow>
         retryable (details (translateError (ThrownAxiosError ae))))
   \<and> (fst (getAccessToken t1 t2 out s) = Inl e \<longrightarrow>
        code e = AUTHENTICATION_ERROR \<and>
        ((\<exists>err. out = PostRejected err \<and> code (translateError err) = AUTHENTICATION_ERROR \<and>
                e = translateError err) \<or>
         (retryable (details e) \<and> carrier (details e) = Some ''UPS'')) \<and>
        ((\<forall>e0. out \<noteq> PostRejected (ThrownCarrierError e0)) \<longrightarrow> retryable (details e)))"
proof -
  have hit: "fst (getAccessToken t1 t2 out s) = Inr cached" if "cached_token t1 s = Some cached"
    using that by (simp add: getAccessToken_def getAccessToken_call_def)
  have miss: "fst (getAccessToken t1 t2 out' s) = fst (fetchToken t2 out' (cache s))"
    if "cached_token t1 s = None" for out'
    using that
    by (simp add: getAccessToken_def getAccessToken_call_def settle_refresh_def
          split: option.splits prod.splits)
  have a: "fst (fetchToken t2 (PostRejected err) (cache s)) = Inl (translateError err)"
    if "code (translateError err) = AUTHENTICATION_ERROR"
    using that by (simp add: fetchToken_def httpClient_post_def fetchToken_catch_def)
  have b: "fst (fetchToken t2 (PostRejected err) (cache s)) =
             Inl (new_CarrierError AUTHENTICATION_ERROR
                    (''UPS authentication failed: '' @ message (translateError err))
                    (no_details\<lparr>carrier := Some ''UPS'', retryable := True\<rparr>))"
    if "code (translateError err) \<noteq> AUTHENTICATION_ERROR"
    using that
    by (simp add: fetchToken_def httpClient_post_def fetchToken_catch_def auth_failed_def)
  have c: "fst (fetchToken t2 (PostResolved (NullData m)) (cache s)) =
             Inl (new_CarrierError AUTHENTICATION_ERROR (''UPS authentication failed: '' @ m)
                    (no_details\<lparr>carrier := Some ''UPS'', retryable := True\<rparr>))"
    by (simp add: fetchToken_def httpClient_post_def fetchToken_catch_def auth_failed_def)
  have d: "fst (fetchToken t2 (PostResolved (TokenData tok' ei)) (cache s)) =
             Inl (new_CarrierError AUTHENTICATION_ERROR
                    ''UPS OAuth response missing access_token''
                    (no_details\<lparr>carrier := Some ''UPS'', retryable := True\<rparr>))"
    if "tok' = None \<or> tok' = Some []" for tok'
    using that
    by (auto simp: fetchToken_def httpClient_post_def fetchToken_catch_def truthy_def
          new_CarrierError_def)
  note d1 = d[of None, simplified] and d2 = d[of "Some []", simplified]
  have e: "fst (fetchToken t2 (PostResolved (TokenData (Some token) ei)) (cache s)) = Inr token"
    if "token \<noteq> []"
    using that
    by (simp add: fetchToken_def httpClient_post_def truthy_def or_default_def Let_def)
  have f: "retryable (details (translateError (ThrownAxiosError ae)))"
    if "code (translateError (ThrownAxiosError ae)) = AUTHENTICATION_ERROR"
    using that by (rule translateError_axios_auth_retryable)
  have g: "code e = AUTHENTICATION_ERROR \<and>
        ((\<exists>err. out = PostRejected err \<and> code (translateError err) = AUTHENTICATION_ERROR \<and>
                e = translateError err) \<or>
         (retryable (details e) \<and> carrier (details e) = Some ''UPS'')) \<and>
        ((\<forall>e0. out \<noteq> PostRejected (ThrownCarrierError e0)) \<longrightarrow> retryable (details e))"
    if fails: "fst (getAccessToken t1 t2 out s) = Inl e"
  proof -
    have "fst (fetchToken t2 out (cache s)) = Inl e"
      using fails
      by (auto simp: getAccessToken_def getAccessToken_call_def settle_refresh_def
            split: option.splits prod.splits)
    then show ?thesis by (rule fetchToken_failure)
  qed
  show ?thesis using hit f g by (auto simp: miss a b c d1 d2 e)
qed


theorem getAccessToken_fails_with_authentication_error_witness:
  "fst (getAccessToken 0 5 (PostResolved (TokenData None (Some ''14399'')))
          \<lparr>cache = None, pendingRefresh = None, exchanges = 0\<rparr>) =
     Inl \<lparr>code = AUTHENTICATION_ERROR, message = ''UPS OAuth response missing access_token'',
          details = \<lparr>carrier = Some ''UPS'', httpStatus = None, upstreamCode = None,
                     upstreamMessage = None, retryable = True\<rparr>\<rparr>
   \<and> fst (getAccessToken 0 5 (PostRejected (ThrownAxiosError
          \<lparr>ax_code = Some ''ERR_BAD_REQUEST'',
           ax_message = ''Request failed with status code 401'',
           ax_response = Some \<lparr>status = 401, data = None\<rparr>\<rparr>))
          \<lparr>cache = None, pendingRefresh = None, exchanges = 0\<rparr>) =
     Inl \<lparr>code = AUTHENTICATION_ERROR, message = ''Authentication failed'',
          details = \<lparr>carrier = None, httpStatus = Some 401, upstreamCode = None,
                     upstreamMessage = None, retryable = True\<rparr>\<rparr>
   \<and> fst (getAccessToken 0 5 (PostRejected (ThrownAxiosError
          \<lparr>ax_code = Some ''ECONNREFUSED'', ax_message = ''Connection refused'',
           ax_response = None\<rparr>))
          \<lparr>cache = None, pendingRefresh = None, exchanges = 0\<rparr>) =
     Inl \<lparr>code = AUTHENTICATION_ERROR,
          message = ''UPS authentication failed: Network error: Connection refused'',
          details = \<lparr>carrier = Some ''UPS'', httpStatus = None, upstreamCode = None,
                     upstreamMessage = None, retryable = True\<rparr>\<rparr>
   \<and> fst (getAccessToken 0 5 (PostResolved (TokenData (Some ''test-token'') (Some ''14399'')))
          \<lparr>cache = None, pendingRefresh = None, exchanges = 0\<rparr>) = Inr ''test-token''"
proof -
  let ?s = "\<lparr>cache = None, pendingRefresh = None, exchanges = 0\<rparr>"
  let ?unauthorized = "ThrownAxiosError
          \<lparr>ax_code = Some ''ERR_BAD_REQUEST'',
           ax_message = ''Request failed with status code 401'',
           ax_response = Some \<lparr>status = 401, data = None\<rparr>\<rparr>"
  let ?refused = "ThrownAxiosError
          \<lparr>ax_code = Some ''ECONNREFUSED'', ax_message = ''Connection refused'',
           ax_response = None\<rparr>"
  have miss: "cached_token 0 ?s = None"
    by (simp add: cached_token_def)
  have unauthorized: "translateError ?unauthorized =
     \<lparr>code = AUTHENTICATION_ERROR, message = ''Authentication failed'',
      details = \<lparr>carrier = None, httpStatus = Some 401, upstreamCode = None,
                 upstreamMessage = None, retryable = True\<rparr>\<rparr>"
    by (simp add: translateError_def new_CarrierError_def no_details_def)
  have refused: "translateError ?refused =
     \<lparr>code = NETWORK_ERROR, message = ''Network error: Connection refused'',
      details = \<lparr>carrier = None, httpStatus = None, upstreamCode = None,
                 upstreamMessage = None, retryable = True\<rparr>\<rparr>"
    by (simp add: translateError_def new_CarrierError_def no_details_def)
  note missing_token = getAccessToken_fails_with_authentication_error
    [where ?t1.0 = 0 and s = ?s and ?t2.0 = 5
       and out = "PostResolved (TokenData None (Some ''14399''))"
       and tok = None and ei = "Some ''14399''"]
  note passthrough = getAccessToken_fails_with_authentication_error
    [where ?t1.0 = 0 and s = ?s and ?t2.0 = 5
       and out = "PostRejected ?unauthorized" and err = ?unauthorized]
  note wrapped = getAccessToken_fails_with_authentication_error
    [where ?t1.0 = 0 and s = ?s and ?t2.0 = 5
       and out = "PostRejected ?refused" and err = ?refused]
  note success = getAccessToken_fails_with_authentication_error
    [where ?t1.0 = 0 and s = ?s and ?t2.0 = 5
       and out = "PostResolved (TokenData (Some ''test-token'') (Some ''14399''))"
       and token = "''test-token''" and ei = "Some ''14399''"]
  have 1: "fst (getAccessToken 0 5 (PostResolved (TokenData None (Some ''14399''))) ?s) =
     Inl \<lparr>code = AUTHENTICATION_ERROR, message = ''UPS OAuth response missing access_token'',
          details = \<lparr>carrier = Some ''UPS'', httpStatus = None, upstreamCode = None,
                     upstreamMessage = None, retryable = True\<rparr>\<rparr>"
    using missing_token miss by (simp add: new_CarrierError_def no_details_def)
  have 2: "fst (getAccessToken 0 5 (PostRejected ?unauthorized) ?s) =
     Inl \<lparr>code = AUTHENTICATION_ERROR, message = ''Authentication failed'',
          details = \<lparr>carrier = None, httpStatus = Some 401, upstreamCode = None,
                     upstreamMessage = None, retryable = True\<rparr>\<rparr>"
    using passthrough miss unauthorized by simp
  have 3: "fst (getAccessToken 0 5 (PostRejected ?refused) ?s) =
     Inl \<lparr>code = AUTHENTICATION_ERROR,
          message = ''UPS authentication failed: Network error: Connection refused'',
          details = \<lparr>carrier = Some ''UPS'', httpStatus = None, upstreamCode = None,
                     upstreamMessage = None, retryable = True\<rparr>\<rparr>"
    using wrapped miss refused by (simp add: new_CarrierError_def no_details_def)
  have 4: "fst (getAccessToken 0 5
                  (PostResolved (TokenData (Some ''test-token'') (Some ''14399''))) ?s) =
     Inr ''test-token''"
    using success miss by simp
  show ?thesis using 1 2 3 4 by simp
qed

section \<open>Shipping orchestrator: aggregation and order\<close>

lemma js_lt_irrefl [simp]: "\<not> js_lt a a"
  by (cases a) simp_all

lemma greater_iff:
  "total_amount x \<noteq> NaN \<Longrightarrow> total_amount y \<noteq> NaN \<Longrightarrow>
   js_lt (Num 0) (SortCompare by_totalCharges x y) = js_lt (total_amount y) (total_amount x)"
  by (cases "total_amount x"; cases "total_amount y")
     (simp_all add: SortCompare_def by_totalCharges_def js_sub_def total_amount_def)

lemma greater_distinct:
  "js_lt (Num 0) (SortCompare by_totalCharges x y) \<Longrightarrow> total_amount x \<noteq> total_amount y"
  by (cases "total_amount x"; cases "total_amount y")
     (auto simp: SortCompare_def by_totalCharges_def js_sub_def total_amount_def)

lemma js_le_trans: "js_le a b \<Longrightarrow> js_le b c \<Longrightarrow> js_le a c"
  by (cases a; cases b; cases c) (simp_all add: js_le_def)

lemma js_lt_le: "js_lt a b \<Longrightarrow> js_le a b"
  by (cases a; cases b) (simp_all add: js_le_def)

lemma set_sort_insert [simp]: "set (sort_insert f x ys) = insert x (set ys)"
  by (induction ys) auto

lemma mset_sort_insert [simp]: "mset (sort_insert f x ys) = add_mset x (mset ys)"
  by (induction ys) auto

lemma mset_array_sort: "mset (array_sort f xs) = mset xs"
  by (induction xs) (simp_all add: array_sort_def)

lemma set_array_sort: "set (array_sort f xs) = set xs"
  by (metis mset_array_sort set_mset_mset)

lemma sorted_sort_insert:
  assumes "sorted_wrt (\<lambda>a b. js_le (total_amount a) (total_amount b)) ys"
    and "total_amount x \<noteq> NaN" and "\<forall>y \<in> set ys. total_amount y \<noteq> NaN"
  shows "sorted_wrt (\<lambda>a b. js_le (total_amount a) (total_amount b))
           (sort_insert by_totalCharges x ys)"
  using assms
proof (induction ys)
  case Nil
  then show ?case by simp
next
  case (Cons y ys)
  show ?case
  proof (cases "js_lt (total_amount y) (total_amount x)")
    case True
    then have "js_le (total_amount y) (total_amount x)" by (rule js_lt_le)
    then show ?thesis using Cons True by (simp add: greater_iff)
  next
    case False
    then have xy: "js_le (total_amount x) (total_amount y)"
      using Cons.prems by (simp add: js_le_def)
    then have "\<forall>z \<in> set ys. js_le (total_amount x) (total_amount z)"
      using Cons.prems(1) by (auto intro: js_le_trans)
    then show ?thesis using Cons.prems False xy by (simp add: greater_iff)
  qed
qed

lemma sorted_array_sort:
  "\<forall>q \<in> set qs. total_amount q \<noteq> NaN \<Longrightarrow>
   sorted_wrt (\<lambda>a b. js_le (total_amount a) (total_amount b)) (array_sort by_totalCharges qs)"
proof (induction qs)
  case Nil
  then show ?case by (simp add: array_sort_def)
next
  case (Cons q qs)
  then have "sorted_wrt (\<lambda>a b. js_le (total_amount a) (total_amount b))
               (sort_insert by_totalCharges q (array_sort by_totalCharges qs))"
    by (intro sorted_sort_insert) (simp_all add: set_array_sort)
  then show ?case by (simp add: array_sort_def)
qed

lemma sorted_wrt_ascending:
  "sorted_wrt (\<lambda>a b. js_le (total_amount a) (total_amount b)) qs \<Longrightarrow> ascending qs"
  by (induction qs rule: ascending.induct) simp_all

lemma with_total_sort_insert:
  "with_total v (sort_insert by_totalCharges x ys) = with_total v (x # ys)"
proof (induction ys)
  case Nil
  then show ?case by simp
next
  case (Cons y ys)
  show ?case
  proof (cases "js_lt (Num 0) (SortCompare by_totalCharges x y)")
    case True
    then have "total_amount x \<noteq> total_amount y" by (rule greater_distinct)
    then show ?thesis using Cons True by (auto simp: with_total_def)
  next
    case False
    then show ?thesis by simp
  qed
qed

lemma with_total_array_sort:
  "with_total v (array_sort by_totalCharges qs) = with_total v qs"
proof (induction qs)
  case Nil
  then show ?case by (simp add: array_sort_def)
next
  case (Cons q qs)
  have "with_total v (array_sort by_totalCharges (q # qs)) =
        with_total v (q # array_sort by_totalCharges qs)"
    by (simp add: array_sort_def with_total_sort_insert)
  then show ?case using Cons by (simp add: with_total_def)
qed

lemma collect_eq:
  "collect rs (qs, es) =
     (qs @ fulfilled_quotes rs, es @ map error_entry (rejection_reasons rs))"
proof (induction rs arbitrary: qs es)
  case Nil
  then show ?case by simp
next
  case (Cons r rs)
  then show ?case by (cases r) simp_all
qed

text \<open>
  Claim C3, as amended. On a non-empty registry \<open>shopRates\<close> returns a result built
  from the settled outcome of every carrier. Its quotes are exactly the quotes of the
  carriers that succeeded (as a multiset: none lost, none added); its errors are one
  entry per failed carrier, in fan-out order, each labelled with the \<open>details.carrier\<close>
  of its error or \<open>UNKNOWN\<close> when there is none, a \<open>CarrierError\<close> being recorded as it
  is. Provided no collected quote has a total of \<open>NaN\<close>, the quotes are ascending by
  total and quotes with equal totals keep their fan-out order.
\<close>

theorem shopRates_aggregates:
  assumes "carriers \<noteq> []"
  shows "\<exists>res. shopRates carriers request = Inr res
     \<and> mset (quotes res) =
         mset (fulfilled_quotes (map (\<lambda>client. client_getRates client request) carriers))
     \<and> errors res =
         map error_entry (rejection_reasons (map (\<lambda>client. client_getRates client request) carriers))
     \<and> (\<forall>(label, e) \<in> set (errors res).
           label = (case carrier (details e) of None \<Rightarrow> ''UNKNOWN'' | Some c \<Rightarrow> c))
     \<and> error_entry (ThrownCarrierError e0) =
         (case carrier (details e0) of None \<Rightarrow> ''UNKNOWN'' | Some c \<Rightarrow> c, e0)
     \<and> ((\<forall>q \<in> set (fulfilled_quotes (map (\<lambda>client. client_getRates client request) carriers)).
            total_amount q \<noteq> NaN) \<longrightarrow>
          ascending (quotes res) \<and>
          (\<forall>v. with_total v (quotes res) =
                 with_total v (fulfilled_quotes
                                 (map (\<lambda>client. client_getRates client request) carriers))))"
proof -
  let ?results = "map (\<lambda>client. client_getRates client request) carriers"
  let ?res = "\<lparr>quotes = array_sort by_totalCharges (fulfilled_quotes ?results),
               errors = map error_entry (rejection_reasons ?results)\<rparr>"
  have run: "shopRates carriers request = Inr ?res"
    using assms by (simp add: shopRates_def collect_eq Let_def)
  have labels: "\<forall>(label, e) \<in> set (errors ?res).
           label = (case carrier (details e) of None \<Rightarrow> ''UNKNOWN'' | Some c \<Rightarrow> c)"
    by (auto simp: error_entry_def Let_def)
  have own: "error_entry (ThrownCarrierError e0) =
         (case carrier (details e0) of None \<Rightarrow> ''UNKNOWN'' | Some c \<Rightarrow> c, e0)"
    by (simp add: error_entry_def rejection_error_def)
  have sorted: "ascending (quotes ?res)"
    if "\<forall>q \<in> set (fulfilled_quotes ?results). total_amount q \<noteq> NaN"
    using that by (simp add: sorted_array_sort sorted_wrt_ascending)
  show ?thesis
    using run labels own sorted
    by (intro exI[of _ ?res]) (simp add: mset_array_sort with_total_array_sort)
qed

theorem shopRates_aggregates_witness:
  "\<exists>res. shopRates
       [mock_client ''UPS''
          (Fulfilled [mock_quote ''UPS'' ''01'' (Num 13.8), mock_quote ''UPS'' ''03'' (Num 11.3)]),
        mock_client ''FEDEX''
          (Rejected (ThrownCarrierError
             (new_CarrierError CARRIER_API_ERROR ''FedEx service unavailable''
                (no_details\<lparr>carrier := Some ''FEDEX'', retryable := True\<rparr>)))),
        mock_client ''DHL'' (Fulfilled [mock_quote ''DHL'' ''EXPRESS'' (Num 5)])]
       VALID_DOMESTIC_RATE_REQUEST = Inr res
     \<and> ascending (quotes res)
     \<and> mset (quotes res) =
         mset [mock_quote ''UPS'' ''01'' (Num 13.8), mock_quote ''UPS'' ''03'' (Num 11.3),
               mock_quote ''DHL'' ''EXPRESS'' (Num 5)]
     \<and> errors res =
         [(''FEDEX'', new_CarrierError CARRIER_API_ERROR ''FedEx service unavailable''
                        (no_details\<lparr>carrier := Some ''FEDEX'', retryable := True\<rparr>))]"
proof -
  let ?cs = "[mock_client ''UPS''
          (Fulfilled [mock_quote ''UPS'' ''01'' (Num 13.8), mock_quote ''UPS'' ''03'' (Num 11.3)]),
        mock_client ''FEDEX''
          (Rejected (ThrownCarrierError
             (new_CarrierError CARRIER_API_ERROR ''FedEx service unavailable''
                (no_details\<lparr>carrier := Some ''FEDEX'', retryable := True\<rparr>)))),
        mock_client ''DHL'' (Fulfilled [mock_quote ''DHL'' ''EXPRESS'' (Num 5)])]"
  have results: "map (\<lambda>client. client_getRates client VALID_DOMESTIC_RATE_REQUEST) ?cs =
     [Fulfilled [mock_quote ''UPS'' ''01'' (Num 13.8), mock_quote ''UPS'' ''03'' (Num 11.3)],
      Rejected (ThrownCarrierError
             (new_CarrierError CARRIER_API_ERROR ''FedEx service unavailable''
                (no_details\<lparr>carrier := Some ''FEDEX'', retryable := True\<rparr>))),
      Fulfilled [mock_quote ''DHL'' ''EXPRESS'' (Num 5)]]"
    by (simp add: mock_client_def settles_with_def)
  have finite: "\<forall>q \<in> set (fulfilled_quotes
       (map (\<lambda>client. client_getRates client VALID_DOMESTIC_RATE_REQUEST) ?cs)).
       total_amount q \<noteq> NaN"
    unfolding results by (simp add: mock_quote_def total_amount_def)
  have nonempty: "?cs \<noteq> []" by simp
  from shopRates_aggregates[OF nonempty, of VALID_DOMESTIC_RATE_REQUEST
         "new_CarrierError CARRIER_API_ERROR ''FedEx service unavailable''
                (no_details\<lparr>carrier := Some ''FEDEX'', retryable := True\<rparr>)"] finite
  show ?thesis
    unfolding results
    by (auto simp: new_CarrierError_def no_details_def)
qed

text \<open>
  Claim C3, as stated, fails: a total of \<open>NaN\<close> (which the mapper produces for a
  malformed monetary string) compares false with everything, so a result holding one
  among two quotes is not ascending, in the order \<open>shopRates\<close> returns or in the other.
\<close>

theorem shopRates_not_ascending_counterexample:
  "shopRates
     [mock_client ''UPS''
        (Fulfilled [mock_quote ''UPS'' ''03'' NaN, mock_quote ''UPS'' ''01'' (Num 5)])]
     VALID_DOMESTIC_RATE_REQUEST =
     Inr \<lparr>quotes = [mock_quote ''UPS'' ''03'' NaN, mock_quote ''UPS'' ''01'' (Num 5)],
          errors = []\<rparr>
   \<and> \<not> ascending [mock_quote ''UPS'' ''03'' NaN, mock_quote ''UPS'' ''01'' (Num 5)]
   \<and> \<not> ascending [mock_quote ''UPS'' ''01'' (Num 5), mock_quote ''UPS'' ''03'' NaN]"
  by (simp add: shopRates_def mock_client_def settles_with_def array_sort_def SortCompare_def
        Let_def by_totalCharges_def mock_quote_def js_sub_def total_amount_def js_le_def)

section \<open>Format mapper: outbound request\<close>

text \<open>
  Claim C7, as amended. In the wire request the \<open>Service\<close> field is present exactly
  when the request's \<open>serviceCode\<close> is present and not the empty string, and then (and
  only then) \<open>execute\<close> addresses the \<open>Rate\<close> endpoint, else the \<open>Shop\<close> endpoint. One
  package is serialised as a single object, two or more as an array; \<open>NumOfPieces\<close> is
  populated exactly when there are two or more packages; \<open>PaymentDetails\<close> is included
  exactly when \<open>shipperAccountNumber\<close> is present and not the empty string.
\<close>

theorem buildUpsRateRequest_shape:
  "(Service (Shipment (RateRequest_w (buildUpsRateRequest ts request))) \<noteq> None) =
      truthy (serviceCode request)
   \<and> (truthy (serviceCode request) \<longrightarrow> rating_url request = ''/rating/v2409/Rate'')
   \<and> (\<not> truthy (serviceCode request) \<longrightarrow> rating_url request = ''/rating/v2409/Shop'')
   \<and> (packages request = [p] \<longrightarrow>
        Package_s (Shipment (RateRequest_w (buildUpsRateRequest ts request))) =
          Single (mapPackageToUps ts p))
   \<and> (2 \<le> length (packages request) \<longrightarrow>
        Package_s (Shipment (RateRequest_w (buildUpsRateRequest ts request))) =
          Multiple (map (mapPackageToUps ts) (packages request)))
   \<and> (NumOfPieces (Shipment (RateRequest_w (buildUpsRateRequest ts request))) \<noteq> None) =
      (2 \<le> length (packages request))
   \<and> (2 \<le> length (packages request) \<longrightarrow>
        NumOfPieces (Shipment (RateRequest_w (buildUpsRateRequest ts request))) =
          Some (nat_toString (length (packages request))))
   \<and> (PaymentDetails (Shipment (RateRequest_w (buildUpsRateRequest ts request))) \<noteq> None) =
      truthy (shipperAccountNumber request)"
proof -
  have multi: "(case map (mapPackageToUps ts) (packages request) of
                  [p] \<Rightarrow> Single p | _ \<Rightarrow> Multiple (map (mapPackageToUps ts) (packages request))) =
               Multiple (map (mapPackageToUps ts) (packages request))"
    if "2 \<le> length (packages request)"
    using that by (cases "packages request") (auto split: list.splits)
  show ?thesis
    using multi
    by (auto simp: buildUpsRateRequest_def Let_def rating_url_def requestOption_def
          API_VERSION_def)
qed

theorem buildUpsRateRequest_shape_witness:
  "Service (Shipment (RateRequest_w (buildUpsRateRequest natural_toString
       (VALID_MULTI_PACKAGE_REQUEST\<lparr>serviceCode := Some ''03'',
                                     shipperAccountNumber := Some ''ABC123''\<rparr>)))) \<noteq> None
   \<and> rating_url (VALID_MULTI_PACKAGE_REQUEST\<lparr>serviceCode := Some ''03'',
                                     shipperAccountNumber := Some ''ABC123''\<rparr>) =
       ''/rating/v2409/Rate''
   \<and> NumOfPieces (Shipment (RateRequest_w (buildUpsRateRequest natural_toString
       (VALID_MULTI_PACKAGE_REQUEST\<lparr>serviceCode := Some ''03'',
                                     shipperAccountNumber := Some ''ABC123''\<rparr>)))) = Some ''2''
   \<and> PaymentDetails (Shipment (RateRequest_w (buildUpsRateRequest natural_toString
       (VALID_MULTI_PACKAGE_REQUEST\<lparr>serviceCode := Some ''03'',
                                     shipperAccountNumber := Some ''ABC123''\<rparr>)))) \<noteq> None
   \<and> Package_s (Shipment (RateRequest_w (buildUpsRateRequest natural_toString
        VALID_DOMESTIC_RATE_REQUEST))) =
       Single (mapPackageToUps natural_toString
                 \<lparr>weight = \<lparr>value_w = Num 5, unit_w = LB\<rparr>,
                  dimensions = Some \<lparr>length_d = Num 10, width = Num 8, height = Num 6,
                                      unit_d = IN\<rparr>\<rparr>)
   \<and> rating_url VALID_DOMESTIC_RATE_REQUEST = ''/rating/v2409/Shop''"
proof -
  let ?r = "VALID_MULTI_PACKAGE_REQUEST\<lparr>serviceCode := Some ''03'',
                                     shipperAccountNumber := Some ''ABC123''\<rparr>"
  have len: "length (packages ?r) = 2"
    by (simp add: VALID_MULTI_PACKAGE_REQUEST_def)
  have two: "nat_toString 2 = ''2''"
    by (simp add: nat_toString.simps digit_char_def)
  have t: "truthy (serviceCode ?r)" "truthy (shipperAccountNumber ?r)"
    by (simp_all add: truthy_def)
  have single: "packages VALID_DOMESTIC_RATE_REQUEST =
      [\<lparr>weight = \<lparr>value_w = Num 5, unit_w = LB\<rparr>,
        dimensions = Some \<lparr>length_d = Num 10, width = Num 8, height = Num 6, unit_d = IN\<rparr>\<rparr>]"
    "\<not> truthy (serviceCode VALID_DOMESTIC_RATE_REQUEST)"
    by (simp_all add: VALID_DOMESTIC_RATE_REQUEST_def truthy_def)
  from buildUpsRateRequest_shape[of natural_toString ?r]
       buildUpsRateRequest_shape[of natural_toString VALID_DOMESTIC_RATE_REQUEST
         "\<lparr>weight = \<lparr>value_w = Num 5, unit_w = LB\<rparr>,
           dimensions = Some \<lparr>length_d = Num 10, width = Num 8, height = Num 6, unit_d = IN\<rparr>\<rparr>"]
       len two t single
  show ?thesis by simp
qed

text \<open>
  Claim C7, as stated, fails for a request that specifies the empty string as its
  service code (which the schema admits): the code is present, the \<open>Service\<close> field is
  not, and the \<open>Shop\<close> endpoint is selected.
\<close>

theorem empty_serviceCode_counterexample:
  "serviceCode (VALID_DOMESTIC_RATE_REQUEST\<lparr>serviceCode := Some ''''\<rparr>) \<noteq> None
   \<and> Service (Shipment (RateRequest_w (buildUpsRateRequest natural_toString
        (VALID_DOMESTIC_RATE_REQUEST\<lparr>serviceCode := Some ''''\<rparr>)))) = None
   \<and> rating_url (VALID_DOMESTIC_RATE_REQUEST\<lparr>serviceCode := Some ''''\<rparr>) = ''/rating/v2409/Shop''"
  by (simp add: buildUpsRateRequest_def Let_def rating_url_def requestOption_def
        API_VERSION_def truthy_def VALID_DOMESTIC_RATE_REQUEST_def)

section \<open>Format mapper: inbound quote\<close>

text \<open>
  Claim C8, evaluated at a failing input. The unit table is an object literal, so
  looking up \<open>constructor\<close> in it finds the inherited property, which is truthy: the
  mapper returns a quote whose billing-weight unit is that property, not a
  \<open>PARSE_ERROR\<close>. A code such as \<open>XXX\<close>, which names nothing inherited, is rejected.
\<close>

theorem inherited_weight_unit_accepted:
  "mapUpsRatedShipmentToQuote
     (baseRatedShipment\<lparr>BillingWeight :=
        \<lparr>UnitOfMeasurement = \<lparr>Code_u = ''constructor'', Description_u = None\<rparr>,
         Weight = ''5.0''\<rparr>\<rparr>) =
   Inr \<lparr>carrier_q = ''UPS'', serviceCode_q = ''03'', serviceName = Own ''UPS Ground'',
        totalCharges = \<lparr>currency = ''USD'', amount = Num 13.8\<rparr>,
        transportationCharges = \<lparr>currency = ''USD'', amount = Num 11.3\<rparr>,
        serviceOptionsCharges = Some \<lparr>currency = ''USD'', amount = Num 2.5\<rparr>,
        billingWeight = Some \<lparr>value_bw = Num 5, unit_bw = Inherited ''constructor''\<rparr>,
        guaranteedDelivery = Some False, estimatedDeliveryDays = None, warnings = None\<rparr>
   \<and> mapUpsRatedShipmentToQuote
     (baseRatedShipment\<lparr>BillingWeight :=
        \<lparr>UnitOfMeasurement = \<lparr>Code_u = ''XXX'', Description_u = None\<rparr>,
         Weight = ''5.0''\<rparr>\<rparr>) =
   Inl \<lparr>code = PARSE_ERROR, message = ''Unknown UPS weight unit: XXX'',
        details = \<lparr>carrier = Some ''UPS'', httpStatus = None, upstreamCode = None,
                   upstreamMessage = None, retryable = False\<rparr>\<rparr>"
  by (simp add: mapUpsRatedShipmentToQuote_def baseRatedShipment_def object_get_def
        UPS_WEIGHT_UNIT_TO_DOMAIN_def object_prototype_keys_def truthy_property_def truthy_def
        parseCharge_def new_CarrierError_def no_details_def Let_def
        parseFloat_def split_sign_def is_js_whitespace_def is_digit_def
        digit_of_char_def digits_val_def exponent_part_def)

text \<open>
  Claim C10. Whether \<open>mapUpsRatedShipmentToQuote\<close> fails does not depend on the
  monetary strings of the record. When the billing-weight unit is accepted, the mapper
  returns a quote whose three amounts are \<open>parseFloat\<close> of the three monetary strings;
  so a string that \<open>parseFloat\<close> does not read as a number gives the amount \<open>NaN\<close>:
  not an error, and not zero.
\<close>

theorem malformed_money_is_NaN:
  "isl (mapUpsRatedShipmentToQuote
          (rated\<lparr>TotalCharges := c1, TransportationCharges := c2, ServiceOptionsCharges := c3\<rparr>)) =
   isl (mapUpsRatedShipmentToQuote rated)
   \<and> (object_get UPS_WEIGHT_UNIT_TO_DOMAIN (Code_u (UnitOfMeasurement (BillingWeight rated)))
         \<noteq> None \<longrightarrow>
       (\<exists>q. mapUpsRatedShipmentToQuote rated = Inr q
          \<and> amount (totalCharges q) = parseFloat (MonetaryValue (TotalCharges rated))
          \<and> amount (transportationCharges q) =
              parseFloat (MonetaryValue (TransportationCharges rated))
          \<and> map_option amount (serviceOptionsCharges q) =
              map_option (\<lambda>c. parseFloat (MonetaryValue c)) (ServiceOptionsCharges rated)
          \<and> (parseFloat (MonetaryValue (TotalCharges rated)) = NaN \<longrightarrow>
               amount (totalCharges q) = NaN)
          \<and> (parseFloat (MonetaryValue (TransportationCharges rated)) = NaN \<longrightarrow>
               amount (transportationCharges q) = NaN)
          \<and> (ServiceOptionsCharges rated = Some c \<and> parseFloat (MonetaryValue c) = NaN \<longrightarrow>
               map_option amount (serviceOptionsCharges q) = Some NaN)))"
  by (cases "ServiceOptionsCharges rated")
     (auto simp: mapUpsRatedShipmentToQuote_def Let_def parseCharge_def split: option.splits)

theorem malformed_money_is_NaN_witness:
  "\<exists>q. mapUpsRatedShipmentToQuote
          (baseRatedShipment\<lparr>TotalCharges := \<lparr>CurrencyCode = ''USD'', MonetaryValue = ''N/A''\<rparr>\<rparr>)
        = Inr q \<and> amount (totalCharges q) = NaN"
proof -
  let ?r = "baseRatedShipment\<lparr>TotalCharges := \<lparr>CurrencyCode = ''USD'', MonetaryValue = ''N/A''\<rparr>\<rparr>"
  have unit: "object_get UPS_WEIGHT_UNIT_TO_DOMAIN (Code_u (UnitOfMeasurement (BillingWeight ?r)))
                \<noteq> None"
    by (simp add: baseRatedShipment_def object_get_def UPS_WEIGHT_UNIT_TO_DOMAIN_def)
  have nan: "parseFloat (MonetaryValue (TotalCharges ?r)) = NaN"
    by (simp add: parseFloat_def split_sign_def is_js_whitespace_def is_digit_def
        digit_of_char_def digits_val_def exponent_part_def)
  from malformed_money_is_NaN
         [where rated = ?r and ?c1.0 = "TotalCharges baseRatedShipment"
            and ?c2.0 = "TransportationCharges baseRatedShipment"
            and ?c3.0 = "ServiceOptionsCharges baseRatedShipment"
            and c = "\<lparr>CurrencyCode = ''USD'', MonetaryValue = ''2.50''\<rparr>"]
       unit nan
  show ?thesis by auto
qed

section \<open>Carrier client: validation before any other activity\<close>

lemma sublist_str_join: "x \<in> set xs \<Longrightarrow> sublist x (str_join sep xs)"
proof (induction sep xs rule: str_join.induct)
  case (1 sep)
  then show ?case by simp
next
  case (2 sep y)
  then show ?case by simp
next
  case (3 sep y z zs)
  show ?case
  proof (cases "x = y")
    case True
    then show ?thesis by simp
  next
    case False
    then have "sublist x (str_join sep (z # zs))" using 3 by simp
    then obtain ps ss where "str_join sep (z # zs) = ps @ x @ ss"
      by (auto simp: sublist_def)
    then have "str_join sep (y # z # zs) = (y @ sep @ ps) @ x @ ss" by simp
    then show ?thesis unfolding sublist_def by blast
  qed
qed

lemma issue_in_message:
  "i \<in> set issues \<Longrightarrow> sublist (formatIssue i) (formatZodError issues)"
  by (simp add: formatZodError_def sublist_str_join)

lemma country_issue:
  "length (countryCode addr) \<noteq> 2 \<Longrightarrow>
   \<lparr>path = p @ [''countryCode''],
    issue_message = ''Country code must be exactly 2 characters''\<rparr> \<in> set (AddressSchema zm p addr)"
  by (simp add: AddressSchema_def check_length_def)

lemma weight_issue:
  assumes "i < length ps" and "js_le (value_w (weight (ps ! i))) (Num 0)"
  shows "\<lparr>path = [''packages'', nat_toString i, ''weight'', ''value''],
          issue_message = ''Weight must be positive''\<rparr>
         \<in> set (concat (map (\<lambda>(i, pkg). PackageSchema zm [''packages'', nat_toString i] pkg)
                          (enumerate 0 ps)))"
proof -
  have "(i, ps ! i) \<in> set (enumerate 0 ps)"
    using assms(1) by (simp add: in_set_enumerate_eq)
  moreover have "\<lparr>path = [''packages'', nat_toString i, ''weight'', ''value''],
          issue_message = ''Weight must be positive''\<rparr>
         \<in> set (PackageSchema zm [''packages'', nat_toString i] (ps ! i))"
    using assms(2)
    by (auto simp: PackageSchema_def PackageWeightSchema_def check_positive_def js_le_def)
  ultimately show ?thesis by force
qed

text \<open>
  Claim C9. \<open>getRates\<close> validates first. When the schema reports an issue, the call
  fails with a non-retryable \<open>VALIDATION_ERROR\<close> and the client's state is untouched:
  no token was asked for and nothing was sent. A request with no package, with a
  country code whose length is not 2, or with a weight that is not positive is
  rejected, and the message names the field and the constraint. A request on which the
  schema reports nothing is handed to the rating operation.
\<close>

theorem getRates_validates_first:
  "(RateRequestSchema zm request \<noteq> [] \<longrightarrow>
      (\<exists>e. getRates zm ts env request s = (Inl e, s)
         \<and> code e = VALIDATION_ERROR \<and> \<not> retryable (details e)
         \<and> message e = ''Invalid rate request: '' @ formatZodError (RateRequestSchema zm request)))
   \<and> (RateRequestSchema zm request = [] \<longrightarrow>
        getRates zm ts env request s = execute ts env request s)
   \<and> (packages request = [] \<longrightarrow>
        RateRequestSchema zm request \<noteq> [] \<and>
        sublist ''packages: At least one package is required''
          (formatZodError (RateRequestSchema zm request)))
   \<and> (length (countryCode (origin request)) \<noteq> 2 \<longrightarrow>
        RateRequestSchema zm request \<noteq> [] \<and>
        sublist ''origin.countryCode: Country code must be exactly 2 characters''
          (formatZodError (RateRequestSchema zm request)))
   \<and> (length (countryCode (destination request)) \<noteq> 2 \<longrightarrow>
        RateRequestSchema zm request \<noteq> [] \<and>
        sublist ''destination.countryCode: Country code must be exactly 2 characters''
          (formatZodError (RateRequestSchema zm request)))
   \<and> (i < length (packages request) \<and>
       js_le (value_w (weight (packages request ! i))) (Num 0) \<longrightarrow>
        RateRequestSchema zm request \<noteq> [] \<and>
        sublist (''packages.'' @ nat_toString i @ ''.weight.value: Weight must be positive'')
          (formatZodError (RateRequestSchema zm request)))"
proof -
  let ?issues = "RateRequestSchema zm request"
  have fails: "\<exists>e. getRates zm ts env request s = (Inl e, s)
         \<and> code e = VALIDATION_ERROR \<and> \<not> retryable (details e)
         \<and> message e = ''Invalid rate request: '' @ formatZodError ?issues"
    if "?issues \<noteq> []"
    using that by (simp add: getRates_def Let_def new_CarrierError_def no_details_def)
  have passes: "getRates zm ts env request s = execute ts env request s" if "?issues = []"
    using that by (simp add: getRates_def Let_def)
  have found: "?issues \<noteq> [] \<and> sublist (formatIssue x) (formatZodError ?issues)"
    if "x \<in> set ?issues" for x
    using that issue_in_message[OF that] by auto
  have pk: "\<lparr>path = [''packages''], issue_message = ''At least one package is required''\<rparr>
              \<in> set ?issues" if "packages request = []"
    using that by (simp add: RateRequestSchema_def)
  have oc: "\<lparr>path = [''origin'', ''countryCode''],
             issue_message = ''Country code must be exactly 2 characters''\<rparr> \<in> set ?issues"
    if "length (countryCode (origin request)) \<noteq> 2"
    using country_issue[OF that, of "[''origin'']" zm] by (simp add: RateRequestSchema_def)
  have dc: "\<lparr>path = [''destination'', ''countryCode''],
             issue_message = ''Country code must be exactly 2 characters''\<rparr> \<in> set ?issues"
    if "length (countryCode (destination request)) \<noteq> 2"
    using country_issue[OF that, of "[''destination'']" zm] by (simp add: RateRequestSchema_def)
  have wt: "\<lparr>path = [''packages'', nat_toString i, ''weight'', ''value''],
             issue_message = ''Weight must be positive''\<rparr> \<in> set ?issues"
    if "i < length (packages request)"
       "js_le (value_w (weight (packages request ! i))) (Num 0)"
    using weight_issue[OF that, of zm] by (simp add: RateRequestSchema_def)
  show ?thesis
    using fails passes found[OF pk] found[OF oc] found[OF dc] found[OF wt]
    by (simp add: formatIssue_def)
qed

theorem getRates_validates_first_witness:
  "(\<exists>e. getRates (\<lambda>d. ''Invalid input'') natural_toString
          \<lparr>t_call = 0, t_settle = 0, oauth_outcome = PostRejected ThrownValue,
           rating_outcome = (\<lambda>url body token. PostRejected ThrownValue)\<rparr>
          (VALID_DOMESTIC_RATE_REQUEST\<lparr>packages := []\<rparr>)
          \<lparr>auth = \<lparr>cache = None, pendingRefresh = None, exchanges = 0\<rparr>, ratingCalls = 0\<rparr> =
        (Inl e, \<lparr>auth = \<lparr>cache = None, pendingRefresh = None, exchanges = 0\<rparr>, ratingCalls = 0\<rparr>)
      \<and> code e = VALIDATION_ERROR \<and> \<not> retryable (details e)
      \<and> message e = ''Invalid rate request: packages: At least one package is required'')
   \<and> getRates (\<lambda>d. ''Invalid input'') natural_toString
          \<lparr>t_call = 0, t_settle = 0, oauth_outcome = PostRejected ThrownValue,
           rating_outcome = (\<lambda>url body token. PostRejected ThrownValue)\<rparr>
          VALID_DOMESTIC_RATE_REQUEST
          \<lparr>auth = \<lparr>cache = None, pendingRefresh = None, exchanges = 0\<rparr>, ratingCalls = 0\<rparr> =
       execute natural_toString
          \<lparr>t_call = 0, t_settle = 0, oauth_outcome = PostRejected ThrownValue,
           rating_outcome = (\<lambda>url body token. PostRejected ThrownValue)\<rparr>
          VALID_DOMESTIC_RATE_REQUEST
          \<lparr>auth = \<lparr>cache = None, pendingRefresh = None, exchanges = 0\<rparr>, ratingCalls = 0\<rparr>"
proof -
  let ?zm = "\<lambda>d::zod_default. ''Invalid input''"
  let ?env = "\<lparr>t_call = 0, t_settle = 0, oauth_outcome = PostRejected ThrownValue,
           rating_outcome = (\<lambda>url body token. PostRejected ThrownValue)\<rparr>"
  let ?s = "\<lparr>auth = \<lparr>cache = None, pendingRefresh = None, exchanges = 0\<rparr>, ratingCalls = 0\<rparr>"
  have valid: "RateRequestSchema ?zm VALID_DOMESTIC_RATE_REQUEST = []"
    by (simp add: RateRequestSchema_def AddressSchema_def PackageSchema_def
          PackageWeightSchema_def DimensionsSchema_def check_min_max_def check_length_def
          check_positive_def optional_def VALID_DOMESTIC_RATE_REQUEST_def)
  have invalid: "RateRequestSchema ?zm (VALID_DOMESTIC_RATE_REQUEST\<lparr>packages := []\<rparr>) =
      [\<lparr>path = [''packages''], issue_message = ''At least one package is required''\<rparr>]"
    by (simp add: RateRequestSchema_def AddressSchema_def check_min_max_def check_length_def
          optional_def VALID_DOMESTIC_RATE_REQUEST_def)
  have fmt: "formatZodError
      [\<lparr>path = [''packages''], issue_message = ''At least one package is required''\<rparr>] =
      ''packages: At least one package is required''"
    by (simp add: formatZodError_def formatIssue_def)
  from getRates_validates_first
         [of ?zm "VALID_DOMESTIC_RATE_REQUEST\<lparr>packages := []\<rparr>" natural_toString ?env ?s 0]
       getRates_validates_first
         [of ?zm VALID_DOMESTIC_RATE_REQUEST natural_toString ?env ?s 0]
       valid invalid fmt
  show ?thesis by simp
qed

end
